theory Spec2Isabelle
  imports Complex_Main
begin

section \<open>Option pricing: binomial lattice, Monte Carlo engine and payoff expressions\<close>

text \<open>
  A shallow embedding of \<^verbatim>\<open>binomial_option.py\<close> and \<^verbatim>\<open>monte_carlo_option.py\<close>.
  Python \<^verbatim>\<open>float\<close> values are idealised as \<^typ>\<open>real\<close>: rounding, overflow (and the
  \<^verbatim>\<open>OverflowError\<close> of \<^verbatim>\<open>math.exp\<close> and \<^verbatim>\<open>**\<close>), infinities and NaN are outside the
  model. Python \<^verbatim>\<open>int\<close> is \<^typ>\<open>int\<close>. Every \<^verbatim>\<open>raise\<close> of the
  source, and every exception of the Python operations the source relies on (division by
  zero, an index out of range, a math domain error), is a value \<open>Inl e\<close> of a sum type.
\<close>

subsection \<open>Exceptions and the fallible Python primitives\<close>

datatype error =
    ValueError string
  | ZeroDivisionError
  | IndexError
  | TypeError
  | NameError string

text \<open>Python's \<^verbatim>\<open>a / b\<close> on numbers: a zero divisor raises.\<close>

definition truediv :: "real \<Rightarrow> real \<Rightarrow> error + real" where
  "truediv a b = (if b = 0 then Inl ZeroDivisionError else Inr (a / b))"

text \<open>\<^verbatim>\<open>math.sqrt\<close>: a negative argument raises \<^verbatim>\<open>ValueError("math domain error")\<close>.\<close>

definition math_sqrt :: "real \<Rightarrow> error + real" where
  "math_sqrt x = (if x < 0 then Inl (ValueError ''math domain error'') else Inr (sqrt x))"

text \<open>
  \<^verbatim>\<open>xs[i]\<close> and \<^verbatim>\<open>xs[i] = v\<close> on a list: an index from \<open>-len\<close> up to \<open>len - 1\<close> is
  accepted, a negative one counting from the end; any other raises \<^verbatim>\<open>IndexError\<close>.
\<close>

definition getitem :: "'a list \<Rightarrow> int \<Rightarrow> error + 'a" where
  "getitem xs i =
     (if 0 \<le> i \<and> i < int (length xs) then Inr (xs ! nat i)
      else if i < 0 \<and> - int (length xs) \<le> i then Inr (xs ! nat (int (length xs) + i))
      else Inl IndexError)"

definition setitem :: "'a list \<Rightarrow> int \<Rightarrow> 'a \<Rightarrow> error + 'a list" where
  "setitem xs i v =
     (if 0 \<le> i \<and> i < int (length xs) then Inr (xs[nat i := v])
      else if i < 0 \<and> - int (length xs) \<le> i then Inr (xs[nat (int (length xs) + i) := v])
      else Inl IndexError)"

subsection \<open>The binomial lattice pricer (\<^verbatim>\<open>binomial_option.py\<close>)\<close>

text \<open>\<^verbatim>\<open>_validate_parameters\<close>: the checks in the source's order; \<open>rate\<close> is a parameter
  and is never inspected.\<close>

definition validate_parameters ::
  "real \<Rightarrow> real \<Rightarrow> real \<Rightarrow> real \<Rightarrow> real \<Rightarrow> int \<Rightarrow> error + unit" where
  "validate_parameters spot strike maturity rate volatility steps =
     (if spot \<le> 0 then Inl (ValueError ''Spot price must be positive.'')
      else if strike \<le> 0 then Inl (ValueError ''Strike price must be positive.'')
      else if maturity \<le> 0 then Inl (ValueError ''Maturity must be positive.'')
      else if steps \<le> 0 then Inl (ValueError ''Steps must be a positive integer.'')
      else if volatility < 0 then Inl (ValueError ''Volatility must be non-negative.'')
      else Inr ())"

text \<open>\<^verbatim>\<open>BinomialTreeResult\<close>; the fields carry the prefix \<open>bt_\<close> so that the source's
  variable names stay free.\<close>

record BinomialTreeResult =
  bt_price :: real
  bt_asset_prices :: "real list list"
  bt_option_values :: "real list list"

text \<open>The asset price lattice: one level per \<open>step\<close> in \<^verbatim>\<open>range(steps + 1)\<close>, the level
  being the list comprehension over \<^verbatim>\<open>range(step + 1)\<close>.\<close>

definition asset_level :: "real \<Rightarrow> real \<Rightarrow> real \<Rightarrow> nat \<Rightarrow> real list" where
  "asset_level spot up down step =
     map (\<lambda>j. spot * up ^ j * down ^ (step - j)) [0..<step + 1]"

definition build_asset_prices :: "real \<Rightarrow> real \<Rightarrow> real \<Rightarrow> int \<Rightarrow> real list list" where
  "build_asset_prices spot up down steps =
     map (asset_level spot up down) [0..<nat (steps + 1)]"

text \<open>The payoff at a node: \<^verbatim>\<open>max(price - strike, 0)\<close> for a call, \<^verbatim>\<open>max(strike - price, 0)\<close>
  otherwise. The source writes it once for the terminal values and once as \<open>intrinsic\<close>.\<close>

definition intrinsic :: "string \<Rightarrow> real \<Rightarrow> real \<Rightarrow> real" where
  "intrinsic option_type strike s =
     (if option_type = ''call'' then max (s - strike) 0 else max (strike - s) 0)"

text \<open>Sequencing of fallible steps: the first exception raised is the result.\<close>

definition and_then :: "error + 'a \<Rightarrow> ('a \<Rightarrow> error + 'b) \<Rightarrow> error + 'b" where
  "and_then m f = (case m of Inl e \<Rightarrow> Inl e | Inr x \<Rightarrow> f x)"

text \<open>The body of the inner loop of the backward induction, for one \<open>node\<close> of one \<open>step\<close>.\<close>

definition node_value ::
  "real \<Rightarrow> real \<Rightarrow> real \<Rightarrow> string \<Rightarrow> bool \<Rightarrow> real list list \<Rightarrow> real list list \<Rightarrow>
   nat \<Rightarrow> nat \<Rightarrow> error + real" where
  "node_value discount probability strike option_type american assets ovalues step node =
     and_then (getitem ovalues (int step + 1)) (\<lambda>upper.
     and_then (getitem upper (int node + 1)) (\<lambda>v_up.
     and_then (getitem upper (int node)) (\<lambda>v_down.
     let continuation = discount * (probability * v_up + (1 - probability) * v_down) in
     if american then
       and_then (getitem assets (int step)) (\<lambda>level.
       and_then (getitem level (int node)) (\<lambda>s.
       Inr (max continuation (intrinsic option_type strike s))))
     else Inr continuation)))"

text \<open>The inner loop \<^verbatim>\<open>for node in range(step + 1)\<close>, appending to \<open>current_values\<close>.\<close>

fun node_loop ::
  "real \<Rightarrow> real \<Rightarrow> real \<Rightarrow> string \<Rightarrow> bool \<Rightarrow> real list list \<Rightarrow> real list list \<Rightarrow>
   nat \<Rightarrow> nat list \<Rightarrow> real list \<Rightarrow> error + real list" where
  "node_loop discount probability strike option_type american assets ovalues step []
     current_values = Inr current_values"
| "node_loop discount probability strike option_type american assets ovalues step (node # nodes)
     current_values =
     and_then
       (node_value discount probability strike option_type american assets ovalues step node)
       (\<lambda>v. node_loop discount probability strike option_type american assets ovalues step nodes
            (current_values @ [v]))"

text \<open>The outer loop \<^verbatim>\<open>for step in range(steps - 1, -1, -1)\<close>, storing each level into
  \<open>option_values\<close>.\<close>

fun step_loop ::
  "real \<Rightarrow> real \<Rightarrow> real \<Rightarrow> string \<Rightarrow> bool \<Rightarrow> real list list \<Rightarrow> nat list \<Rightarrow>
   real list list \<Rightarrow> error + real list list" where
  "step_loop discount probability strike option_type american assets [] ovalues = Inr ovalues"
| "step_loop discount probability strike option_type american assets (step # rest) ovalues =
     and_then
       (node_loop discount probability strike option_type american assets ovalues step
          [0..<step + 1] [])
       (\<lambda>current_values.
     and_then (setitem ovalues (int step) current_values) (\<lambda>ovalues'.
     step_loop discount probability strike option_type american assets rest ovalues'))"

text \<open>\<^verbatim>\<open>binomial_option_price\<close>. The statements run in the source's order: validation, the
  option type, the derived constants (each division may raise), the arbitrage check, the
  asset lattice, the terminal values, the backward induction, the result.\<close>

definition binomial_option_price ::
  "real \<Rightarrow> real \<Rightarrow> real \<Rightarrow> real \<Rightarrow> real \<Rightarrow> int \<Rightarrow> string \<Rightarrow> bool \<Rightarrow> real \<Rightarrow>
   error + BinomialTreeResult" where
  "binomial_option_price spot strike maturity rate volatility steps option_type american dividend =
     and_then (validate_parameters spot strike maturity rate volatility steps) (\<lambda>_.
     if option_type \<noteq> ''call'' \<and> option_type \<noteq> ''put''
     then Inl (ValueError ''option_type must be 'call' or 'put'.'')
     else
     and_then (truediv maturity (of_int steps)) (\<lambda>dt.
     and_then (math_sqrt dt) (\<lambda>root_dt.
     let up = exp (volatility * root_dt) in
     and_then (truediv 1 up) (\<lambda>down.
     let growth = exp ((rate - dividend) * dt) in
     and_then (truediv (growth - down) (up - down)) (\<lambda>probability.
     if \<not> (0 \<le> probability \<and> probability \<le> 1)
     then Inl (ValueError ''Arbitrage detected: adjust parameters (N, sigma, or rate).'')
     else
     let assets = build_asset_prices spot up down steps in
     and_then (getitem assets (- 1)) (\<lambda>last_level.
     let terminal_values = map (intrinsic option_type strike) last_level in
     and_then (setitem (replicate (nat (steps + 1)) []) (- 1) terminal_values) (\<lambda>ovalues.
     let discount = exp (- rate * dt) in
     and_then
       (step_loop discount probability strike option_type american assets
          (rev [0..<nat steps]) ovalues)
       (\<lambda>ovalues'.
     and_then (getitem ovalues' 0) (\<lambda>level0.
     and_then (getitem level0 0) (\<lambda>price0.
     Inr \<lparr>bt_price = price0, bt_asset_prices = assets,
          bt_option_values = ovalues'\<rparr>))))))))))"

subsection \<open>The Monte Carlo engine (\<^verbatim>\<open>monte_carlo_option.py\<close>)\<close>

definition validate_positive :: "string \<Rightarrow> real \<Rightarrow> error + unit" where
  "validate_positive name x =
     (if x \<le> 0 then Inl (ValueError (name @ '' must be positive.'')) else Inr ())"

text \<open>\<^verbatim>\<open>_validate_inputs\<close>: \<open>rate\<close> is a parameter and is never inspected.\<close>

definition validate_inputs ::
  "real \<Rightarrow> real \<Rightarrow> real \<Rightarrow> real \<Rightarrow> int \<Rightarrow> int \<Rightarrow> error + unit" where
  "validate_inputs spot maturity rate volatility steps paths =
     and_then (validate_positive ''spot'' spot) (\<lambda>_.
     and_then (validate_positive ''maturity'' maturity) (\<lambda>_.
     and_then (validate_positive ''steps'' (of_int steps)) (\<lambda>_.
     and_then (validate_positive ''paths'' (of_int paths)) (\<lambda>_.
     if volatility < 0 then Inl (ValueError ''volatility must be non-negative.'')
     else Inr ()))))"

text \<open>\<^verbatim>\<open>MonteCarloResult\<close>, its fields prefixed with \<open>mc_\<close>.\<close>

record MonteCarloResult =
  mc_price :: real
  mc_payoffs :: "real list"
  mc_paths :: "real list list"

text \<open>
  The source of standard-normal samples is explicit state: \<open>z\<close> is the sequence of values
  that successive calls of \<^verbatim>\<open>gauss(0, 1)\<close> return, and the position \<open>k\<close> of the next
  draw is threaded through both loops. A payoff is any callable: it returns a number or
  raises. It is a function of the terminal price and the path: a callable that mutates
  the list it is given is outside the model.
\<close>

type_synonym payoff_fn = "real \<Rightarrow> real list \<Rightarrow> error + real"

text \<open>The inner loop \<^verbatim>\<open>for _ in range(steps)\<close>: draw, update \<open>price\<close>, append.\<close>

fun walk :: "(nat \<Rightarrow> real) \<Rightarrow> real \<Rightarrow> real \<Rightarrow> nat \<Rightarrow> nat \<Rightarrow> real \<Rightarrow> real list \<Rightarrow>
    nat \<times> real \<times> real list" where
  "walk z drift diffusion 0 k price prices = (k, price, prices)"
| "walk z drift diffusion (Suc n) k price prices =
     (let increment = drift + diffusion * z k;
          price' = price * exp increment
      in walk z drift diffusion n (Suc k) price' (prices @ [price']))"

text \<open>The outer loop \<^verbatim>\<open>for _ in range(paths)\<close>: simulate one path, apply the payoff.\<close>

fun simulate :: "(nat \<Rightarrow> real) \<Rightarrow> real \<Rightarrow> real \<Rightarrow> real \<Rightarrow> nat \<Rightarrow> payoff_fn \<Rightarrow> nat \<Rightarrow> nat \<Rightarrow>
    real list list \<Rightarrow> real list \<Rightarrow> error + (real list list \<times> real list)" where
  "simulate z spot drift diffusion steps payoff 0 k simulated_paths payoffs =
     Inr (simulated_paths, payoffs)"
| "simulate z spot drift diffusion steps payoff (Suc n) k simulated_paths payoffs =
     (case walk z drift diffusion steps k spot [spot] of
        (k', price, prices) \<Rightarrow>
          and_then (payoff price prices) (\<lambda>v.
          simulate z spot drift diffusion steps payoff n k'
            (simulated_paths @ [prices]) (payoffs @ [v])))"

definition monte_carlo_option_price ::
  "(nat \<Rightarrow> real) \<Rightarrow> real \<Rightarrow> real \<Rightarrow> real \<Rightarrow> real \<Rightarrow> int \<Rightarrow> int \<Rightarrow> payoff_fn \<Rightarrow>
   error + MonteCarloResult" where
  "monte_carlo_option_price z spot maturity rate volatility steps paths payoff =
     and_then (validate_inputs spot maturity rate volatility steps paths) (\<lambda>_.
     and_then (truediv maturity (of_int steps)) (\<lambda>dt.
     let drift = (rate - 0.5 * volatility * volatility) * dt in
     and_then (math_sqrt dt) (\<lambda>root_dt.
     let diffusion = volatility * root_dt in
     and_then (simulate z spot drift diffusion (nat steps) payoff (nat paths) 0 [] [])
       (\<lambda>(simulated_paths, payoffs).
     let discount_factor = exp (- rate * maturity) in
     and_then (truediv (discount_factor * sum_list payoffs) (of_nat (length payoffs)))
       (\<lambda>price_estimate.
     Inr \<lparr>mc_price = price_estimate, mc_payoffs = payoffs,
          mc_paths = simulated_paths\<rparr>)))))"

subsection \<open>The payoff expression sandbox: syntax trees\<close>

text \<open>
  The nodes of Python's \<^verbatim>\<open>ast\<close> module that an expression parsed in mode \<^verbatim>\<open>eval\<close> can
  contain. Operator and context nodes are nodes of their own, as in \<^verbatim>\<open>ast\<close>, since the
  validator visits them. \<open>Pow_op\<close> and \<open>Not_op\<close> are \<^verbatim>\<open>ast.Pow\<close> and \<^verbatim>\<open>ast.Not\<close>,
  \<open>ListE\<close> is \<^verbatim>\<open>ast.List\<close>, and the field \<^verbatim>\<open>id\<close> of a name is called \<open>ident\<close>.
  \<open>OtherExpr\<close> stands for every expression class that is not listed (\<^verbatim>\<open>Lambda\<close>,
  \<^verbatim>\<open>Dict\<close>, \<^verbatim>\<open>Set\<close>, the comprehensions, \<^verbatim>\<open>NamedExpr\<close>, \<^verbatim>\<open>JoinedStr\<close>, ...) and carries
  the class name only: the validator rejects such a node without looking inside.
\<close>

datatype expr_context = Load | Store | Del

datatype boolop = And | Or

datatype operator =
  Add | Sub | Mult | MatMult | Div | Mod | Pow_op | LShift | RShift | BitOr | BitXor | BitAnd
  | FloorDiv

datatype unaryop = Invert | Not_op | UAdd | USub

datatype cmpop = Eq | NotEq | Lt | LtE | Gt | GtE | Is | IsNot | In | NotIn

datatype py_constant =
  ConstInt int | ConstFloat real | ConstBool bool | ConstStr string | ConstNone | ConstOther

datatype expr =
    BoolOp boolop "expr list"
  | BinOp expr operator expr
  | UnaryOp unaryop expr
  | IfExp expr expr expr
  | Compare expr "cmpop list" "expr list"
  | Call expr "expr list" "(string option \<times> expr) list"
  | Constant py_constant
  | Attribute expr string expr_context
  | Subscript expr expr expr_context
  | Starred expr expr_context
  | Name string expr_context
  | ListE "expr list" expr_context
  | Tuple "expr list" expr_context
  | Slice "expr option" "expr option" "expr option"
  | OtherExpr string

datatype ast_mod = Expression expr

subsection \<open>The payoff expression sandbox: \<^verbatim>\<open>_ExpressionValidator\<close>\<close>

fun operator_name :: "operator \<Rightarrow> string" where
  "operator_name Add = ''Add''"
| "operator_name Sub = ''Sub''"
| "operator_name Mult = ''Mult''"
| "operator_name MatMult = ''MatMult''"
| "operator_name Div = ''Div''"
| "operator_name Mod = ''Mod''"
| "operator_name Pow_op = ''Pow''"
| "operator_name LShift = ''LShift''"
| "operator_name RShift = ''RShift''"
| "operator_name BitOr = ''BitOr''"
| "operator_name BitXor = ''BitXor''"
| "operator_name BitAnd = ''BitAnd''"
| "operator_name FloorDiv = ''FloorDiv''"

fun unaryop_name :: "unaryop \<Rightarrow> string" where
  "unaryop_name Invert = ''Invert''"
| "unaryop_name Not_op = ''Not''"
| "unaryop_name UAdd = ''UAdd''"
| "unaryop_name USub = ''USub''"

fun cmpop_name :: "cmpop \<Rightarrow> string" where
  "cmpop_name Eq = ''Eq''"
| "cmpop_name NotEq = ''NotEq''"
| "cmpop_name Lt = ''Lt''"
| "cmpop_name LtE = ''LtE''"
| "cmpop_name Gt = ''Gt''"
| "cmpop_name GtE = ''GtE''"
| "cmpop_name Is = ''Is''"
| "cmpop_name IsNot = ''IsNot''"
| "cmpop_name In = ''In''"
| "cmpop_name NotIn = ''NotIn''"

fun context_name :: "expr_context \<Rightarrow> string" where
  "context_name Load = ''Load''"
| "context_name Store = ''Store''"
| "context_name Del = ''Del''"

text \<open>The \<^verbatim>\<open>raise\<close> of the overridden \<^verbatim>\<open>visit\<close> for a node whose class is not in
  \<^verbatim>\<open>_allowed_nodes\<close>. The message of the source ends with \<^verbatim>\<open>ast.dump(node)\<close>; the model
  keeps the class name of the node.\<close>

definition unsupported :: "string \<Rightarrow> error + unit" where
  "unsupported cls = Inl (ValueError (''Unsupported expression: '' @ cls))"

definition allowed_names :: "string list" where
  "allowed_names = [''price'', ''path'']"

definition helper_functions :: "string list" where
  "helper_functions = [''max'', ''min'']"

definition startswith :: "string \<Rightarrow> string \<Rightarrow> bool" where
  "startswith s pre = (take (length pre) s = pre)"

text \<open>\<^verbatim>\<open>_allowed_functions\<close>. The names of the \<^verbatim>\<open>math\<close> module, \<^verbatim>\<open>dir(math)\<close>, belong to the
  Python installation and are the parameter \<open>dir_math\<close>.\<close>

definition allowed_functions :: "string list \<Rightarrow> string list" where
  "allowed_functions dir_math =
     filter (\<lambda>name. \<not> startswith name ''__'') dir_math @ helper_functions"

text \<open>The visits of the operator and context nodes: the class check of \<^verbatim>\<open>visit\<close>, then
  \<^verbatim>\<open>generic_visit\<close> on a node without children.\<close>

definition visit_operator :: "operator \<Rightarrow> error + unit" where
  "visit_operator op =
     (if op \<in> {Add, Sub, Mult, Div, Pow_op, FloorDiv, Mod} then Inr ()
      else unsupported (operator_name op))"

definition visit_unaryop :: "unaryop \<Rightarrow> error + unit" where
  "visit_unaryop op =
     (if op \<in> {USub, UAdd} then Inr () else unsupported (unaryop_name op))"

definition visit_cmpop :: "cmpop \<Rightarrow> error + unit" where
  "visit_cmpop op =
     (if op \<in> {Eq, NotEq, Lt, LtE, Gt, GtE} then Inr () else unsupported (cmpop_name op))"

fun visit_cmpops :: "cmpop list \<Rightarrow> error + unit" where
  "visit_cmpops [] = Inr ()"
| "visit_cmpops (op # ops) = and_then (visit_cmpop op) (\<lambda>_. visit_cmpops ops)"

definition visit_context :: "expr_context \<Rightarrow> error + unit" where
  "visit_context ctx = (if ctx = Load then Inr () else unsupported (context_name ctx))"

text \<open>A \<^verbatim>\<open>keyword\<close> node is not in \<^verbatim>\<open>_allowed_nodes\<close>: the first keyword of a call is
  rejected.\<close>

definition visit_keywords :: "(string option \<times> expr) list \<Rightarrow> error + unit" where
  "visit_keywords kwds = (if kwds = [] then Inr () else unsupported ''keyword'')"

text \<open>The checks of \<^verbatim>\<open>visit_Call\<close> on the callee, before its \<^verbatim>\<open>generic_visit\<close>.\<close>

definition visit_Call_check :: "string list \<Rightarrow> expr \<Rightarrow> error + unit" where
  "visit_Call_check fns func =
     (case func of
        Attribute receiver attr ctx \<Rightarrow>
          (if \<not> ((case receiver of Name ident c \<Rightarrow> ident = ''math'' | _ \<Rightarrow> False)
                  \<and> attr \<in> set fns)
           then Inl (ValueError ''Only math module functions are allowed in calls.'')
           else Inr ())
      | Name ident ctx \<Rightarrow>
          (if ident \<notin> set fns
           then Inl (ValueError (''Function '' @ ident @ '' is not allowed.''))
           else Inr ())
      | _ \<Rightarrow> Inl (ValueError ''Invalid function call in expression.''))"

text \<open>
  \<^verbatim>\<open>visit\<close> on an expression node: the class check, then \<^verbatim>\<open>visit_Name\<close>, \<^verbatim>\<open>visit_Call\<close>
  or \<^verbatim>\<open>generic_visit\<close>, which visits the fields in the order of \<^verbatim>\<open>_fields\<close>.
  \<^verbatim>\<open>visit_Name\<close> does not visit the context of the name. There is no
  \<^verbatim>\<open>visit_Attribute\<close>: an attribute node is visited generically. \<open>fns\<close> is
  \<^verbatim>\<open>_allowed_functions\<close>.
\<close>

fun visit :: "string list \<Rightarrow> expr \<Rightarrow> error + unit"
  and visit_list :: "string list \<Rightarrow> expr list \<Rightarrow> error + unit"
  and visit_optional :: "string list \<Rightarrow> expr option \<Rightarrow> error + unit" where
  "visit fns (Name ident ctx) =
     (if ident \<notin> set allowed_names \<and> ident \<notin> set fns
      then Inl (ValueError (''Unknown name in payoff expression: '' @ ident))
      else Inr ())"
| "visit fns (Call func args kwds) =
     and_then (visit_Call_check fns func) (\<lambda>_.
     and_then (visit fns func) (\<lambda>_.
     and_then (visit_list fns args) (\<lambda>_.
     visit_keywords kwds)))"
| "visit fns (BoolOp op values) = visit_list fns values"
| "visit fns (BinOp left op right) =
     and_then (visit fns left) (\<lambda>_.
     and_then (visit_operator op) (\<lambda>_.
     visit fns right))"
| "visit fns (UnaryOp op operand) =
     and_then (visit_unaryop op) (\<lambda>_. visit fns operand)"
| "visit fns (IfExp test body orelse) =
     and_then (visit fns test) (\<lambda>_.
     and_then (visit fns body) (\<lambda>_.
     visit fns orelse))"
| "visit fns (Compare left ops comparators) =
     and_then (visit fns left) (\<lambda>_.
     and_then (visit_cmpops ops) (\<lambda>_.
     visit_list fns comparators))"
| "visit fns (Constant c) = Inr ()"
| "visit fns (Attribute receiver attr ctx) =
     and_then (visit fns receiver) (\<lambda>_. visit_context ctx)"
| "visit fns (Subscript container index ctx) =
     and_then (visit fns container) (\<lambda>_.
     and_then (visit fns index) (\<lambda>_.
     visit_context ctx))"
| "visit fns (ListE elts ctx) =
     and_then (visit_list fns elts) (\<lambda>_. visit_context ctx)"
| "visit fns (Tuple elts ctx) =
     and_then (visit_list fns elts) (\<lambda>_. visit_context ctx)"
| "visit fns (Slice lower upper stride) =
     and_then (visit_optional fns lower) (\<lambda>_.
     and_then (visit_optional fns upper) (\<lambda>_.
     visit_optional fns stride))"
| "visit fns (Starred e ctx) = unsupported ''Starred''"
| "visit fns (OtherExpr cls) = unsupported cls"
| "visit_list fns [] = Inr ()"
| "visit_list fns (e # es) = and_then (visit fns e) (\<lambda>_. visit_list fns es)"
| "visit_optional fns None = Inr ()"
| "visit_optional fns (Some e) = visit fns e"

subsection \<open>The payoff expression sandbox: evaluation\<close>

text \<open>
  The payoff of the source is \<^verbatim>\<open>float(eval(compiled, allowed_globals, locals))\<close>. The
  evaluator is Python's; the model covers a fragment of it: numbers (\<^verbatim>\<open>int\<close>, \<^verbatim>\<open>float\<close>
  and \<^verbatim>\<open>bool\<close>), the arithmetic operators but \<^verbatim>\<open>**\<close>, comparisons, \<^verbatim>\<open>and\<close>/\<^verbatim>\<open>or\<close>,
  conditional expressions, list and tuple displays, indexing by a number, calls of the
  builtins \<^verbatim>\<open>max\<close> and \<^verbatim>\<open>min\<close>, and calls of \<^verbatim>\<open>math.log\<close> with one number. An
  outcome is \<open>Some (Inr v)\<close> for a value, \<open>Some (Inl e)\<close> for a raised exception, and
  \<open>None\<close> where the expression leaves the fragment (an attribute, a slice, any other
  function of \<^verbatim>\<open>math\<close>, an operand that is not a number): about such an evaluation the
  model says nothing.
\<close>

datatype pyval =
    IntV int
  | FloatV real
  | BoolV bool
  | StrV string
  | NoneV
  | ListV "pyval list"
  | TupleV "pyval list"
  | BuiltinV string
  | MathV string
  | OtherV

type_synonym 'a outcome = "(error + 'a) option"

definition then_eval :: "'a outcome \<Rightarrow> ('a \<Rightarrow> 'b outcome) \<Rightarrow> 'b outcome" where
  "then_eval m f =
     (case m of None \<Rightarrow> None | Some (Inl e) \<Rightarrow> Some (Inl e) | Some (Inr x) \<Rightarrow> f x)"

fun const_value :: "py_constant \<Rightarrow> pyval" where
  "const_value (ConstInt i) = IntV i"
| "const_value (ConstFloat x) = FloatV x"
| "const_value (ConstBool b) = BoolV b"
| "const_value (ConstStr s) = StrV s"
| "const_value ConstNone = NoneV"
| "const_value ConstOther = OtherV"

text \<open>\<^verbatim>\<open>bool\<close> is a subclass of \<^verbatim>\<open>int\<close>: \<^verbatim>\<open>True\<close> counts as 1 and \<^verbatim>\<open>False\<close> as 0.\<close>

fun as_int :: "pyval \<Rightarrow> int option" where
  "as_int (IntV i) = Some i"
| "as_int (BoolV b) = Some (if b then 1 else 0)"
| "as_int _ = None"

fun as_real :: "pyval \<Rightarrow> real option" where
  "as_real (IntV i) = Some (of_int i)"
| "as_real (BoolV b) = Some (if b then 1 else 0)"
| "as_real (FloatV x) = Some x"
| "as_real _ = None"

text \<open>A binary operator on two integers, and on two numbers of which one is a float.
  Division, floor division and modulo raise on a zero divisor.\<close>

fun int_binop :: "operator \<Rightarrow> int \<Rightarrow> int \<Rightarrow> pyval outcome" where
  "int_binop Add a b = Some (Inr (IntV (a + b)))"
| "int_binop Sub a b = Some (Inr (IntV (a - b)))"
| "int_binop Mult a b = Some (Inr (IntV (a * b)))"
| "int_binop Div a b =
     (if b = 0 then Some (Inl ZeroDivisionError)
      else Some (Inr (FloatV (of_int a / of_int b))))"
| "int_binop FloorDiv a b =
     (if b = 0 then Some (Inl ZeroDivisionError) else Some (Inr (IntV (a div b))))"
| "int_binop Mod a b =
     (if b = 0 then Some (Inl ZeroDivisionError) else Some (Inr (IntV (a mod b))))"
| "int_binop _ a b = None"

fun float_binop :: "operator \<Rightarrow> real \<Rightarrow> real \<Rightarrow> pyval outcome" where
  "float_binop Add x y = Some (Inr (FloatV (x + y)))"
| "float_binop Sub x y = Some (Inr (FloatV (x - y)))"
| "float_binop Mult x y = Some (Inr (FloatV (x * y)))"
| "float_binop Div x y =
     (if y = 0 then Some (Inl ZeroDivisionError) else Some (Inr (FloatV (x / y))))"
| "float_binop FloorDiv x y =
     (if y = 0 then Some (Inl ZeroDivisionError)
      else Some (Inr (FloatV (of_int \<lfloor>x / y\<rfloor>))))"
| "float_binop Mod x y =
     (if y = 0 then Some (Inl ZeroDivisionError)
      else Some (Inr (FloatV (x - of_int \<lfloor>x / y\<rfloor> * y))))"
| "float_binop _ x y = None"

definition binop :: "operator \<Rightarrow> pyval \<Rightarrow> pyval \<Rightarrow> pyval outcome" where
  "binop op a b =
     (case (as_int a, as_int b) of
        (Some i, Some j) \<Rightarrow> int_binop op i j
      | _ \<Rightarrow>
        (case (as_real a, as_real b) of
           (Some x, Some y) \<Rightarrow> float_binop op x y
         | _ \<Rightarrow> None))"

fun unary :: "unaryop \<Rightarrow> pyval \<Rightarrow> pyval outcome" where
  "unary USub (FloatV x) = Some (Inr (FloatV (- x)))"
| "unary UAdd (FloatV x) = Some (Inr (FloatV x))"
| "unary USub v = (case as_int v of Some i \<Rightarrow> Some (Inr (IntV (- i))) | None \<Rightarrow> None)"
| "unary UAdd v = (case as_int v of Some i \<Rightarrow> Some (Inr (IntV i)) | None \<Rightarrow> None)"
| "unary _ v = None"

fun cmp :: "cmpop \<Rightarrow> real \<Rightarrow> real \<Rightarrow> bool option" where
  "cmp Eq x y = Some (x = y)"
| "cmp NotEq x y = Some (x \<noteq> y)"
| "cmp Lt x y = Some (x < y)"
| "cmp LtE x y = Some (x \<le> y)"
| "cmp Gt x y = Some (x > y)"
| "cmp GtE x y = Some (x \<ge> y)"
| "cmp _ x y = None"

definition compare :: "cmpop \<Rightarrow> pyval \<Rightarrow> pyval \<Rightarrow> pyval outcome" where
  "compare op a b =
     (case (as_real a, as_real b) of
        (Some x, Some y) \<Rightarrow>
          (case cmp op x y of Some t \<Rightarrow> Some (Inr (BoolV t)) | None \<Rightarrow> None)
      | _ \<Rightarrow> None)"

fun truthy :: "pyval \<Rightarrow> bool option" where
  "truthy (IntV i) = Some (i \<noteq> 0)"
| "truthy (FloatV x) = Some (x \<noteq> 0)"
| "truthy (BoolV b) = Some b"
| "truthy (StrV s) = Some (s \<noteq> [])"
| "truthy NoneV = Some False"
| "truthy (ListV vs) = Some (vs \<noteq> [])"
| "truthy (TupleV vs) = Some (vs \<noteq> [])"
| "truthy (BuiltinV f) = Some True"
| "truthy _ = None"

text \<open>The builtins \<^verbatim>\<open>max\<close> and \<^verbatim>\<open>min\<close>: the first item is the candidate, and a later
  item replaces it only when it is strictly greater (strictly smaller for \<^verbatim>\<open>min\<close>).\<close>

fun extremum :: "bool \<Rightarrow> pyval \<Rightarrow> pyval list \<Rightarrow> pyval option" where
  "extremum greatest best [] = Some best"
| "extremum greatest best (item # items) =
     (case (as_real item, as_real best) of
        (Some a, Some b) \<Rightarrow>
          extremum greatest
            (if (if greatest then a > b else a < b) then item else best) items
      | _ \<Rightarrow> None)"

definition of_option :: "'a option \<Rightarrow> 'a outcome" where
  "of_option m = (case m of None \<Rightarrow> None | Some v \<Rightarrow> Some (Inr v))"

fun call_extremum :: "bool \<Rightarrow> pyval list \<Rightarrow> pyval outcome" where
  "call_extremum greatest [] = Some (Inl TypeError)"
| "call_extremum greatest [ListV (v # vs)] = of_option (extremum greatest v vs)"
| "call_extremum greatest [TupleV (v # vs)] = of_option (extremum greatest v vs)"
| "call_extremum greatest [v] = (case as_real v of Some x \<Rightarrow> Some (Inl TypeError) | None \<Rightarrow> None)"
| "call_extremum greatest (v # vs) = of_option (extremum greatest v vs)"

text \<open>\<^verbatim>\<open>math.log(x)\<close> with one number: the natural logarithm of a positive \<open>x\<close>, and
  \<^verbatim>\<open>ValueError("math domain error")\<close> for any other.\<close>

fun call_log :: "pyval list \<Rightarrow> pyval outcome" where
  "call_log [v] =
     (case as_real v of
        Some x \<Rightarrow>
          if x \<le> 0 then Some (Inl (ValueError ''math domain error''))
          else Some (Inr (FloatV (ln x)))
      | None \<Rightarrow> None)"
| "call_log _ = None"

definition call :: "pyval \<Rightarrow> pyval list \<Rightarrow> pyval outcome" where
  "call f args =
     (if f = BuiltinV ''max'' then call_extremum True args
      else if f = BuiltinV ''min'' then call_extremum False args
      else if f = MathV ''log'' then call_log args
      else None)"

text \<open>\<^verbatim>\<open>container[index]\<close> on a list or a tuple with an integer index.\<close>

definition lift_error :: "error + 'a \<Rightarrow> 'a outcome" where
  "lift_error r = Some r"

fun subscript :: "pyval \<Rightarrow> pyval \<Rightarrow> pyval outcome" where
  "subscript (ListV vs) index =
     (case as_int index of Some i \<Rightarrow> lift_error (getitem vs i) | None \<Rightarrow> None)"
| "subscript (TupleV vs) index =
     (case as_int index of Some i \<Rightarrow> lift_error (getitem vs i) | None \<Rightarrow> None)"
| "subscript _ index = None"

text \<open>
  The lookup of a name: the locals \<^verbatim>\<open>price\<close> and \<^verbatim>\<open>path\<close> first, then
  \<^verbatim>\<open>allowed_globals\<close>, in which \<^verbatim>\<open>math\<close> and \<^verbatim>\<open>__builtins__\<close> were stored last, the two
  helper builtins before them and the members of \<^verbatim>\<open>math\<close> first; \<^verbatim>\<open>__builtins__\<close> is
  empty, so any other name raises \<^verbatim>\<open>NameError\<close>.
\<close>

definition lookup_name :: "string list \<Rightarrow> real \<Rightarrow> real list \<Rightarrow> string \<Rightarrow> pyval outcome" where
  "lookup_name dir_math price path name =
     (if name = ''price'' then Some (Inr (FloatV price))
      else if name = ''path'' then Some (Inr (ListV (map FloatV path)))
      else if name = ''math'' \<or> name = ''__builtins__'' then Some (Inr OtherV)
      else if name \<in> set helper_functions then Some (Inr (BuiltinV name))
      else if name \<in> set dir_math \<and> name \<in> set (allowed_functions dir_math)
      then Some (Inr (MathV name))
      else Some (Inl (NameError name)))"

text \<open>
  Evaluation, in Python's order: operands and arguments from left to right, the callee
  before its arguments; \<^verbatim>\<open>and\<close>/\<^verbatim>\<open>or\<close> and chained comparisons stop at the first operand
  that decides them.
\<close>

fun eval_expr :: "string list \<Rightarrow> real \<Rightarrow> real list \<Rightarrow> expr \<Rightarrow> pyval outcome"
  and eval_list :: "string list \<Rightarrow> real \<Rightarrow> real list \<Rightarrow> expr list \<Rightarrow> pyval list outcome"
  and eval_bool ::
    "string list \<Rightarrow> real \<Rightarrow> real list \<Rightarrow> boolop \<Rightarrow> expr list \<Rightarrow> pyval outcome"
  and eval_chain ::
    "string list \<Rightarrow> real \<Rightarrow> real list \<Rightarrow> pyval \<Rightarrow> cmpop list \<Rightarrow> expr list \<Rightarrow> pyval outcome"
  where
  "eval_expr dm price path (Constant c) = Some (Inr (const_value c))"
| "eval_expr dm price path (Name ident ctx) = lookup_name dm price path ident"
| "eval_expr dm price path (BinOp left op right) =
     then_eval (eval_expr dm price path left) (\<lambda>a.
     then_eval (eval_expr dm price path right) (\<lambda>b.
     binop op a b))"
| "eval_expr dm price path (UnaryOp op operand) =
     then_eval (eval_expr dm price path operand) (unary op)"
| "eval_expr dm price path (BoolOp op values) = eval_bool dm price path op values"
| "eval_expr dm price path (Compare left ops comparators) =
     then_eval (eval_expr dm price path left) (\<lambda>a.
     eval_chain dm price path a ops comparators)"
| "eval_expr dm price path (IfExp test body orelse) =
     then_eval (eval_expr dm price path test) (\<lambda>c.
     case truthy c of
       None \<Rightarrow> None
     | Some t \<Rightarrow> if t then eval_expr dm price path body else eval_expr dm price path orelse)"
| "eval_expr dm price path (Call func args kwds) =
     then_eval (eval_expr dm price path func) (\<lambda>f.
     then_eval (eval_list dm price path args) (\<lambda>vs.
     if kwds = [] then call f vs else None))"
| "eval_expr dm price path (ListE elts ctx) =
     then_eval (eval_list dm price path elts) (\<lambda>vs. Some (Inr (ListV vs)))"
| "eval_expr dm price path (Tuple elts ctx) =
     then_eval (eval_list dm price path elts) (\<lambda>vs. Some (Inr (TupleV vs)))"
| "eval_expr dm price path (Subscript container index ctx) =
     then_eval (eval_expr dm price path container) (\<lambda>a.
     then_eval (eval_expr dm price path index) (\<lambda>b.
     subscript a b))"
| "eval_expr dm price path (Attribute receiver attr ctx) = None"
| "eval_expr dm price path (Slice lower upper stride) = None"
| "eval_expr dm price path (Starred e ctx) = None"
| "eval_expr dm price path (OtherExpr cls) = None"
| "eval_list dm price path [] = Some (Inr [])"
| "eval_list dm price path (e # es) =
     then_eval (eval_expr dm price path e) (\<lambda>v.
     then_eval (eval_list dm price path es) (\<lambda>vs.
     Some (Inr (v # vs))))"
| "eval_bool dm price path op [] = None"
| "eval_bool dm price path op [e] = eval_expr dm price path e"
| "eval_bool dm price path op (e # e' # es) =
     then_eval (eval_expr dm price path e) (\<lambda>v.
     case truthy v of
       None \<Rightarrow> None
     | Some t \<Rightarrow>
         if (op = And \<and> \<not> t) \<or> (op = Or \<and> t) then Some (Inr v)
         else eval_bool dm price path op (e' # es))"
| "eval_chain dm price path a (op # ops) (e # es) =
     then_eval (eval_expr dm price path e) (\<lambda>b.
     then_eval (compare op a b) (\<lambda>r.
     if ops = [] \<and> es = [] then Some (Inr r)
     else case truthy r of
            None \<Rightarrow> None
          | Some t \<Rightarrow> if t then eval_chain dm price path b ops es else Some (Inr r)))"
| "eval_chain dm price path a ops es = None"

text \<open>\<^verbatim>\<open>float(v)\<close> on the value of the expression.\<close>

fun to_float :: "pyval \<Rightarrow> real outcome" where
  "to_float (IntV i) = Some (Inr (of_int i))"
| "to_float (FloatV x) = Some (Inr x)"
| "to_float (BoolV b) = Some (Inr (if b then 1 else 0))"
| "to_float NoneV = Some (Inl TypeError)"
| "to_float (ListV vs) = Some (Inl TypeError)"
| "to_float (TupleV vs) = Some (Inl TypeError)"
| "to_float (BuiltinV f) = Some (Inl TypeError)"
| "to_float _ = None"

text \<open>The closure \<^verbatim>\<open>payoff\<close> that \<^verbatim>\<open>payoff_from_expression\<close> returns (named
  \<open>compiled_payoff\<close>: \<open>payoff\<close> is the argument of the Monte Carlo engine).\<close>

definition compiled_payoff :: "string list \<Rightarrow> expr \<Rightarrow> real \<Rightarrow> real list \<Rightarrow> real outcome" where
  "compiled_payoff dir_math body price path =
     then_eval (eval_expr dir_math price path body) to_float"

text \<open>
  \<^verbatim>\<open>payoff_from_expression\<close>. \<^verbatim>\<open>ast.parse\<close> is Python's parser: the model starts from its
  outcome on the expression text, \<open>Inl msg\<close> for a \<^verbatim>\<open>SyntaxError\<close> and \<open>Inr tree\<close> for the
  syntax tree. The root \<^verbatim>\<open>Expression\<close> is in \<^verbatim>\<open>_allowed_nodes\<close> and its generic visit
  visits the body. Nothing is evaluated before the payoff is called.
\<close>

definition payoff_from_expression ::
  "string list \<Rightarrow> string + ast_mod \<Rightarrow> error + (real \<Rightarrow> real list \<Rightarrow> real outcome)" where
  "payoff_from_expression dir_math parsed =
     (case parsed of
        Inl exc \<Rightarrow> Inl (ValueError (''Invalid payoff expression: '' @ exc))
      | Inr (Expression body) \<Rightarrow>
          and_then (visit (allowed_functions dir_math) body) (\<lambda>_.
          Inr (compiled_payoff dir_math body)))"

subsection \<open>The expressions the claims name\<close>


text \<open>The syntax trees of the expression texts the claims name, as \<^verbatim>\<open>ast.parse\<close> in mode
  \<^verbatim>\<open>eval\<close> builds them; \<^verbatim>\<open>import os\<close> is a statement and has none.\<close>

definition tree_dunder_import :: ast_mod where
  "tree_dunder_import =
     Expression (Call (Name ''__import__'' Load) [Constant (ConstStr ''os'')] [])"

definition tree_price_class :: ast_mod where
  "tree_price_class = Expression (Attribute (Name ''price'' Load) ''__class__'' Load)"

definition tree_call_payoff :: ast_mod where
  "tree_call_payoff =
     Expression
       (Call (Name ''max'' Load)
          [BinOp (Name ''price'' Load) Sub (Constant (ConstInt 100)), Constant (ConstInt 0)] [])"




subsection \<open>The specification's derived quantities\<close>

text \<open>
  The derived constants of the lattice as the specification writes them, as total
  functions of the parameters, and the arithmetic mean. The theorems below compare the
  results of the code with them.
\<close>

text \<open>The value the inner loop stores for node \<open>j\<close> of step \<open>s\<close> when every index it
  reads is in range.\<close>

definition node_formula ::
  "real \<Rightarrow> real \<Rightarrow> real \<Rightarrow> string \<Rightarrow> bool \<Rightarrow> real list list \<Rightarrow> real list list \<Rightarrow>
   nat \<Rightarrow> nat \<Rightarrow> real" where
  "node_formula discount probability strike option_type american assets V s j =
     (let continuation =
            discount * (probability * V ! (s + 1) ! (j + 1) + (1 - probability) * V ! (s + 1) ! j)
      in if american then max continuation (intrinsic option_type strike (assets ! s ! j))
         else continuation)"

definition crr_dt :: "real \<Rightarrow> int \<Rightarrow> real" where
  "crr_dt maturity steps = maturity / of_int steps"

definition crr_up :: "real \<Rightarrow> real \<Rightarrow> int \<Rightarrow> real" where
  "crr_up volatility maturity steps = exp (volatility * sqrt (crr_dt maturity steps))"

definition crr_down :: "real \<Rightarrow> real \<Rightarrow> int \<Rightarrow> real" where
  "crr_down volatility maturity steps = 1 / crr_up volatility maturity steps"

definition crr_growth :: "real \<Rightarrow> real \<Rightarrow> real \<Rightarrow> int \<Rightarrow> real" where
  "crr_growth rate dividend maturity steps = exp ((rate - dividend) * crr_dt maturity steps)"

definition crr_probability :: "real \<Rightarrow> real \<Rightarrow> real \<Rightarrow> real \<Rightarrow> int \<Rightarrow> real" where
  "crr_probability rate dividend volatility maturity steps =
     (crr_growth rate dividend maturity steps - crr_down volatility maturity steps)
     / (crr_up volatility maturity steps - crr_down volatility maturity steps)"

definition crr_discount :: "real \<Rightarrow> real \<Rightarrow> int \<Rightarrow> real" where
  "crr_discount rate maturity steps = exp (- rate * crr_dt maturity steps)"

definition mean :: "real list \<Rightarrow> real" where
  "mean xs = sum_list xs / real (length xs)"


section \<open>Properties\<close>

subsection \<open>The fallible primitives\<close>

lemma and_then_simps [simp]:
  "and_then (Inl e) f = Inl e"
  "and_then (Inr x) f = f x"
  by (simp_all add: and_then_def)

lemma and_then_eq_Inr: "and_then m f = Inr r \<longleftrightarrow> (\<exists>x. m = Inr x \<and> f x = Inr r)"
  by (cases m) simp_all

lemma getitem_nat: "i < length xs \<Longrightarrow> getitem xs (int i) = Inr (xs ! i)"
  by (simp add: getitem_def)

lemma getitem_nat_succ: "i + 1 < length xs \<Longrightarrow> getitem xs (int i + 1) = Inr (xs ! (i + 1))"
  using getitem_nat [of "i + 1" xs] by (simp add: add.commute)

lemma getitem_zero: "xs \<noteq> [] \<Longrightarrow> getitem xs 0 = Inr (xs ! 0)"
  by (simp add: getitem_def)

lemma getitem_minus_one: "xs \<noteq> [] \<Longrightarrow> getitem xs (- 1) = Inr (last xs)"
proof -
  assume ne: "xs \<noteq> []"
  then have "nat (int (length xs) + - 1) = length xs - 1"
    by (cases xs) simp_all
  with ne show ?thesis
    by (simp add: getitem_def last_conv_nth Suc_le_eq)
qed

lemma setitem_nat: "i < length xs \<Longrightarrow> setitem xs (int i) v = Inr (xs[i := v])"
  by (simp add: setitem_def)

lemma setitem_minus_one:
  "xs \<noteq> [] \<Longrightarrow> setitem xs (- 1) v = Inr (xs[length xs - 1 := v])"
proof -
  assume ne: "xs \<noteq> []"
  then have "nat (int (length xs) + - 1) = length xs - 1"
    by (cases xs) simp_all
  with ne show ?thesis
    by (simp add: setitem_def Suc_le_eq)
qed

lemma node_value_ok:
  assumes "step + 1 < length V" "node + 1 < length (V ! (step + 1))"
    and "step < length assets" "node < length (assets ! step)"
  shows "node_value d p k ot am assets V step node = Inr (node_formula d p k ot am assets V step node)"
  using assms
  by (simp add: node_value_def node_formula_def getitem_nat getitem_nat_succ Let_def)

lemma node_loop_ok:
  assumes "step + 1 < length V" "step < length assets"
    and "\<forall>node \<in> set nodes. node + 1 < length (V ! (step + 1)) \<and> node < length (assets ! step)"
  shows "node_loop d p k ot am assets V step nodes acc =
           Inr (acc @ map (node_formula d p k ot am assets V step) nodes)"
  using assms
  by (induction nodes arbitrary: acc) (simp_all add: node_value_ok)

lemma node_formula_cong:
  assumes "V' ! (s + 1) = V ! (s + 1)"
  shows "node_formula d p k ot am assets V' s j = node_formula d p k ot am assets V s j"
  using assms by (simp add: node_formula_def)

lemma step_loop_ok:
  assumes "length V = N + 1" "k \<le> N" "N < length assets"
    and "\<forall>s. s \<le> N \<longrightarrow> length (assets ! s) = s + 1"
    and "\<forall>s. k \<le> s \<and> s \<le> N \<longrightarrow> length (V ! s) = s + 1"
  shows "\<exists>V'. step_loop d p ks ot am assets (rev [0..<k]) V = Inr V' \<and> length V' = N + 1
           \<and> (\<forall>s. k \<le> s \<and> s \<le> N \<longrightarrow> V' ! s = V ! s)
           \<and> (\<forall>s. s \<le> N \<longrightarrow> length (V' ! s) = s + 1)
           \<and> (\<forall>s < k. \<forall>j \<le> s. V' ! s ! j = node_formula d p ks ot am assets V' s j)"
  using assms
proof (induction k arbitrary: V)
  case 0
  then show ?case by simp
next
  case (Suc k)
  let ?cv = "map (node_formula d p ks ot am assets V k) [0..<k + 1]"
  let ?V1 = "V[k := ?cv]"
  have len_up: "length (V ! (k + 1)) = k + 2"
    using Suc.prems by simp
  have nl: "node_loop d p ks ot am assets V k [0..<k + 1] [] = Inr ?cv"
    using node_loop_ok [of k V assets "[0..<k + 1]" d p ks ot am "[]"] Suc.prems len_up
    by simp
  have si: "setitem V (int k) ?cv = Inr ?V1"
    using Suc.prems by (simp add: setitem_nat)
  have step: "step_loop d p ks ot am assets (rev [0..<Suc k]) V
              = step_loop d p ks ot am assets (rev [0..<k]) ?V1"
    using nl si by simp
  have pre: "\<forall>s. k \<le> s \<and> s \<le> N \<longrightarrow> length (?V1 ! s) = s + 1"
    using Suc.prems by (auto simp: nth_list_update)
  from Suc.IH [of ?V1] Suc.prems pre
  obtain V' where V': "step_loop d p ks ot am assets (rev [0..<k]) ?V1 = Inr V'"
      "length V' = N + 1"
      "\<forall>s. k \<le> s \<and> s \<le> N \<longrightarrow> V' ! s = ?V1 ! s"
      "\<forall>s. s \<le> N \<longrightarrow> length (V' ! s) = s + 1"
      "\<forall>s < k. \<forall>j \<le> s. V' ! s ! j = node_formula d p ks ot am assets V' s j"
    by auto
  have keep: "\<forall>s. Suc k \<le> s \<and> s \<le> N \<longrightarrow> V' ! s = V ! s"
    using V'(3) by (auto simp: nth_list_update)
  have atk: "V' ! k = ?cv"
    using V'(3) Suc.prems by (simp add: nth_list_update)
  have up: "V' ! (k + 1) = V ! (k + 1)"
    using keep Suc.prems by simp
  have newk: "\<forall>j \<le> k. V' ! k ! j = node_formula d p ks ot am assets V' k j"
  proof (intro allI impI)
    fix j assume "j \<le> k"
    then have "V' ! k ! j = node_formula d p ks ot am assets V k j"
      unfolding atk using nth_map_upt [of j "k + 1" 0 "node_formula d p ks ot am assets V k"]
      by simp
    then show "V' ! k ! j = node_formula d p ks ot am assets V' k j"
      using node_formula_cong [OF up] by simp
  qed
  have all: "\<forall>s < Suc k. \<forall>j \<le> s. V' ! s ! j = node_formula d p ks ot am assets V' s j"
    using V'(5) newk by (auto simp: less_Suc_eq)
  show ?case
    using step V'(1,2,4) keep all by auto
qed

subsection \<open>The lattice pricer returns on every arbitrage-free input\<close>

lemma validate_parameters_Inr:
  "validate_parameters spot strike maturity rate volatility steps = Inr u \<longleftrightarrow>
     0 < spot \<and> 0 < strike \<and> 0 < maturity \<and> 0 < steps \<and> 0 \<le> volatility"
  by (auto simp: validate_parameters_def)

lemma crr_dt_pos: "0 < maturity \<Longrightarrow> 0 < steps \<Longrightarrow> 0 < crr_dt maturity steps"
  by (simp add: crr_dt_def)

lemma crr_up_eq_down:
  assumes "0 < maturity" "0 < steps"
  shows "crr_up volatility maturity steps = crr_down volatility maturity steps \<longleftrightarrow> volatility = 0"
proof -
  let ?x = "volatility * sqrt (crr_dt maturity steps)"
  have "crr_down volatility maturity steps = exp (- ?x)"
    by (simp add: crr_down_def crr_up_def exp_minus inverse_eq_divide)
  then have "crr_up volatility maturity steps = crr_down volatility maturity steps \<longleftrightarrow> ?x = - ?x"
    by (simp add: crr_up_def)
  also have "\<dots> \<longleftrightarrow> volatility = 0"
    using crr_dt_pos [OF assms] by auto
  finally show ?thesis .
qed

lemma build_asset_prices_shape:
  assumes "0 < steps"
  shows "length (build_asset_prices spot up down steps) = nat steps + 1"
    and "s \<le> nat steps \<Longrightarrow> build_asset_prices spot up down steps ! s = asset_level spot up down s"
    and "length (asset_level spot up down s) = s + 1"
    and "j \<le> s \<Longrightarrow> asset_level spot up down s ! j = spot * up ^ j * down ^ (s - j)"
proof -
  have n: "nat (steps + 1) = nat steps + 1"
    using assms by simp
  show "length (build_asset_prices spot up down steps) = nat steps + 1"
    by (simp add: build_asset_prices_def n)
  show "s \<le> nat steps \<Longrightarrow> build_asset_prices spot up down steps ! s = asset_level spot up down s"
    unfolding build_asset_prices_def n
    using nth_map_upt [of s "nat steps + 1" 0 "asset_level spot up down"] by simp
  show "length (asset_level spot up down s) = s + 1"
    by (simp add: asset_level_def)
  show "j \<le> s \<Longrightarrow> asset_level spot up down s ! j = spot * up ^ j * down ^ (s - j)"
    unfolding asset_level_def
    using nth_map_upt [of j "s + 1" 0 "\<lambda>j. spot * up ^ j * down ^ (s - j)"] by simp
qed

lemma binomial_returns:
  fixes spot strike maturity rate volatility dividend :: real and steps :: int
  assumes valid: "0 < spot" "0 < strike" "0 < maturity" "0 < steps" "0 \<le> volatility"
    and ot: "option_type = ''call'' \<or> option_type = ''put''"
    and vol: "volatility \<noteq> 0"
    and prob: "0 \<le> crr_probability rate dividend volatility maturity steps"
      "crr_probability rate dividend volatility maturity steps \<le> 1"
  shows "\<exists>V. binomial_option_price spot strike maturity rate volatility steps option_type
               american dividend
             = Inr \<lparr>bt_price = V ! 0 ! 0,
                    bt_asset_prices =
                      build_asset_prices spot (crr_up volatility maturity steps)
                        (crr_down volatility maturity steps) steps,
                    bt_option_values = V\<rparr>
           \<and> length V = nat steps + 1
           \<and> (\<forall>s. s \<le> nat steps \<longrightarrow> length (V ! s) = s + 1)
           \<and> V ! nat steps =
               map (intrinsic option_type strike)
                 (asset_level spot (crr_up volatility maturity steps)
                    (crr_down volatility maturity steps) (nat steps))
           \<and> (\<forall>s < nat steps. \<forall>j \<le> s. V ! s ! j =
                 node_formula (crr_discount rate maturity steps)
                   (crr_probability rate dividend volatility maturity steps)
                   strike option_type american
                   (build_asset_prices spot (crr_up volatility maturity steps)
                      (crr_down volatility maturity steps) steps) V s j)"
proof -
  let ?N = "nat steps"
  let ?dt = "maturity / real_of_int steps"
  let ?up = "exp (volatility * sqrt ?dt)"
  let ?down = "1 / ?up"
  let ?g = "exp ((rate - dividend) * ?dt)"
  let ?p = "(?g - ?down) / (?up - ?down)"
  let ?d = "exp (- rate * ?dt)"
  let ?A = "build_asset_prices spot ?up ?down steps"
  let ?T = "map (intrinsic option_type strike) (asset_level spot ?up ?down ?N)"
  let ?R = "replicate (nat (steps + 1)) ([] :: real list)"
  let ?V0 = "?R[?N := ?T]"
  have raw: "crr_dt maturity steps = ?dt" "crr_up volatility maturity steps = ?up"
    "crr_down volatility maturity steps = ?down"
    "crr_probability rate dividend volatility maturity steps = ?p"
    "crr_discount rate maturity steps = ?d"
    by (simp_all only: crr_dt_def crr_up_def crr_down_def crr_growth_def crr_probability_def
        crr_discount_def)
  have v: "validate_parameters spot strike maturity rate volatility steps = Inr ()"
    using valid by (simp add: validate_parameters_Inr)
  have otc: "(option_type \<noteq> ''call'' \<and> option_type \<noteq> ''put'') = False"
    using ot by auto
  have dtpos: "0 < ?dt"
    using valid by simp
  have dt: "truediv maturity (real_of_int steps) = Inr ?dt"
    using valid by (simp add: truediv_def)
  have rt: "math_sqrt ?dt = Inr (sqrt ?dt)"
    using dtpos by (simp only: math_sqrt_def not_less [symmetric] if_False) simp
  have dn: "truediv 1 ?up = Inr ?down"
    by (simp add: truediv_def)
  have ne: "?up \<noteq> ?down"
    using crr_up_eq_down [of maturity steps volatility] valid vol unfolding raw by simp
  have pr: "truediv (?g - ?down) (?up - ?down) = Inr ?p"
    using ne by (simp add: truediv_def)
  have arb: "(\<not> (0 \<le> ?p \<and> ?p \<le> 1)) = False"
    using prob unfolding raw by simp
  have n1: "nat (steps + 1) = ?N + 1"
    using valid by simp
  have lenA: "length ?A = ?N + 1"
    using build_asset_prices_shape(1) [OF valid(4)] .
  have lastA: "getitem ?A (- 1) = Inr (asset_level spot ?up ?down ?N)"
  proof -
    have "?A \<noteq> []" using lenA by auto
    then have "getitem ?A (- 1) = Inr (last ?A)" by (rule getitem_minus_one)
    also have "last ?A = ?A ! ?N"
      using lenA \<open>?A \<noteq> []\<close> by (simp add: last_conv_nth)
    also have "\<dots> = asset_level spot ?up ?down ?N"
      using build_asset_prices_shape(2) [OF valid(4), of ?N] by simp
    finally show ?thesis .
  qed
  have lenR: "length ?R = ?N + 1"
    by (simp only: length_replicate n1)
  have set0: "setitem ?R (- 1) ?T = Inr ?V0"
    using setitem_minus_one [of ?R ?T] lenR by auto
  have lenV0: "length ?V0 = ?N + 1"
    using lenR by (simp only: length_list_update)
  have V0N: "?V0 ! ?N = ?T"
    using lenR nth_list_update_eq [of ?N ?R ?T] by simp
  have shapeA: "\<forall>s. s \<le> ?N \<longrightarrow> length (?A ! s) = s + 1"
    using build_asset_prices_shape(2,3) [OF valid(4)] by simp
  have shapeV0: "\<forall>s. ?N \<le> s \<and> s \<le> ?N \<longrightarrow> length (?V0 ! s) = s + 1"
    using build_asset_prices_shape(3) [OF valid(4)] V0N by auto
  from step_loop_ok [of ?V0 ?N ?N ?A ?d ?p strike option_type american, OF lenV0 _ _ shapeA shapeV0]
    lenA
  obtain V where V: "step_loop ?d ?p strike option_type american ?A (rev [0..<?N]) ?V0 = Inr V"
      "length V = ?N + 1"
      "\<forall>s. ?N \<le> s \<and> s \<le> ?N \<longrightarrow> V ! s = ?V0 ! s"
      "\<forall>s. s \<le> ?N \<longrightarrow> length (V ! s) = s + 1"
      "\<forall>s < ?N. \<forall>j \<le> s. V ! s ! j = node_formula ?d ?p strike option_type american ?A V s j"
    by auto
  have g0: "getitem V 0 = Inr (V ! 0)"
    using V(2) by (intro getitem_zero) auto
  have "length (V ! 0) = 1"
    using V(4) by simp
  then have g00: "getitem (V ! 0) 0 = Inr (V ! 0 ! 0)"
    by (intro getitem_zero) auto
  have top: "V ! ?N = ?T"
    using V(3) V0N by simp
  have main: "binomial_option_price spot strike maturity rate volatility steps option_type
               american dividend
             = Inr \<lparr>bt_price = V ! 0 ! 0, bt_asset_prices = ?A, bt_option_values = V\<rparr>"
    unfolding binomial_option_price_def
    by (simp only: v otc dt rt dn pr arb lastA set0 V(1) g0 g00 and_then_simps Let_def if_False)
  show ?thesis
    unfolding raw using main V(2,4,5) top by blast
qed

subsection \<open>The failures of the lattice pricer\<close>

lemma binomial_invalid:
  "validate_parameters spot strike maturity rate volatility steps = Inl e \<Longrightarrow>
   binomial_option_price spot strike maturity rate volatility steps option_type american dividend
     = Inl e"
  by (simp add: binomial_option_price_def)

lemma binomial_bad_option_type:
  assumes "validate_parameters spot strike maturity rate volatility steps = Inr ()"
    and "option_type \<noteq> ''call''" "option_type \<noteq> ''put''"
  shows "binomial_option_price spot strike maturity rate volatility steps option_type american
           dividend = Inl (ValueError ''option_type must be 'call' or 'put'.'')"
  using assms by (simp add: binomial_option_price_def)

lemma binomial_prefix:
  fixes spot strike maturity rate volatility dividend :: real and steps :: int
  assumes valid: "validate_parameters spot strike maturity rate volatility steps = Inr ()"
    and ot: "option_type = ''call'' \<or> option_type = ''put''"
  shows "binomial_option_price spot strike maturity rate volatility steps option_type american
           dividend =
         and_then (truediv (crr_growth rate dividend maturity steps - crr_down volatility maturity steps)
                     (crr_up volatility maturity steps - crr_down volatility maturity steps))
           (\<lambda>probability.
              if \<not> (0 \<le> probability \<and> probability \<le> 1)
              then Inl (ValueError ''Arbitrage detected: adjust parameters (N, sigma, or rate).'')
              else
              let assets = build_asset_prices spot (crr_up volatility maturity steps)
                             (crr_down volatility maturity steps) steps in
              and_then (getitem assets (- 1)) (\<lambda>last_level.
              let terminal_values = map (intrinsic option_type strike) last_level in
              and_then (setitem (replicate (nat (steps + 1)) []) (- 1) terminal_values) (\<lambda>ovalues.
              let discount = crr_discount rate maturity steps in
              and_then
                (step_loop discount probability strike option_type american assets
                   (rev [0..<nat steps]) ovalues)
                (\<lambda>ovalues'.
              and_then (getitem ovalues' 0) (\<lambda>level0.
              and_then (getitem level0 0) (\<lambda>price0.
              Inr \<lparr>bt_price = price0, bt_asset_prices = assets,
                   bt_option_values = ovalues'\<rparr>))))))"
proof -
  let ?dt = "maturity / real_of_int steps"
  let ?up = "exp (volatility * sqrt ?dt)"
  let ?down = "1 / ?up"
  have pos: "0 < maturity" "0 < steps"
    using valid by (simp_all add: validate_parameters_Inr)
  have otc: "(option_type \<noteq> ''call'' \<and> option_type \<noteq> ''put'') = False"
    using ot by auto
  have dtpos: "0 < ?dt"
    using pos by simp
  have dt: "truediv maturity (real_of_int steps) = Inr ?dt"
    using pos by (simp add: truediv_def)
  have rt: "math_sqrt ?dt = Inr (sqrt ?dt)"
    using dtpos by (simp only: math_sqrt_def not_less [symmetric] if_False) simp
  have dn: "truediv 1 ?up = Inr ?down"
    by (simp add: truediv_def)
  show ?thesis
    unfolding binomial_option_price_def crr_dt_def crr_up_def crr_down_def crr_growth_def
      crr_discount_def
    by (simp only: valid otc dt rt dn and_then_simps Let_def if_False)
qed

lemma binomial_zero_volatility:
  assumes "validate_parameters spot strike maturity rate volatility steps = Inr ()"
    and "option_type = ''call'' \<or> option_type = ''put''"
    and "volatility = 0"
  shows "binomial_option_price spot strike maturity rate volatility steps option_type american
           dividend = Inl ZeroDivisionError"
proof -
  have "crr_up volatility maturity steps - crr_down volatility maturity steps = 0"
    using assms(3) by (simp add: crr_up_def crr_down_def)
  then show ?thesis
    unfolding binomial_prefix [OF assms(1,2)] by (simp add: truediv_def)
qed

lemma binomial_arbitrage:
  assumes "validate_parameters spot strike maturity rate volatility steps = Inr ()"
    and "option_type = ''call'' \<or> option_type = ''put''"
    and "volatility \<noteq> 0"
    and "\<not> (0 \<le> crr_probability rate dividend volatility maturity steps
            \<and> crr_probability rate dividend volatility maturity steps \<le> 1)"
  shows "binomial_option_price spot strike maturity rate volatility steps option_type american
           dividend = Inl (ValueError ''Arbitrage detected: adjust parameters (N, sigma, or rate).'')"
proof -
  have pos: "0 < maturity" "0 < steps"
    using assms(1) by (simp_all add: validate_parameters_Inr)
  have ne: "crr_up volatility maturity steps - crr_down volatility maturity steps \<noteq> 0"
    using crr_up_eq_down [OF pos, of volatility] assms(3) by simp
  have "truediv (crr_growth rate dividend maturity steps - crr_down volatility maturity steps)
          (crr_up volatility maturity steps - crr_down volatility maturity steps)
        = Inr (crr_probability rate dividend volatility maturity steps)"
    using ne by (simp add: truediv_def crr_probability_def)
  then show ?thesis
    unfolding binomial_prefix [OF assms(1,2)] using assms(4) by simp
qed

lemma binomial_Inr_conditions:
  assumes "binomial_option_price spot strike maturity rate volatility steps option_type american
             dividend = Inr r"
  shows "validate_parameters spot strike maturity rate volatility steps = Inr ()"
    and "option_type = ''call'' \<or> option_type = ''put''"
    and "volatility \<noteq> 0"
    and "0 \<le> crr_probability rate dividend volatility maturity steps"
    and "crr_probability rate dividend volatility maturity steps \<le> 1"
proof -
  show v: "validate_parameters spot strike maturity rate volatility steps = Inr ()"
  proof (cases "validate_parameters spot strike maturity rate volatility steps")
    case (Inl e)
    from binomial_invalid [OF this] assms show ?thesis by simp
  next
    case (Inr u)
    then show ?thesis by simp
  qed
  show ot: "option_type = ''call'' \<or> option_type = ''put''"
    using binomial_bad_option_type [OF v, of option_type american dividend] assms by auto
  show vol: "volatility \<noteq> 0"
    using binomial_zero_volatility [OF v ot, of american dividend] assms by auto
  have "0 \<le> crr_probability rate dividend volatility maturity steps
        \<and> crr_probability rate dividend volatility maturity steps \<le> 1"
    using binomial_arbitrage [OF v ot vol, of dividend american] assms by auto
  then show "0 \<le> crr_probability rate dividend volatility maturity steps"
    and "crr_probability rate dividend volatility maturity steps \<le> 1"
    by simp_all
qed

subsection \<open>The simulation loops\<close>

lemma validate_inputs_Inr:
  "validate_inputs spot maturity rate volatility steps paths = Inr u \<longleftrightarrow>
     0 < spot \<and> 0 < maturity \<and> 0 < steps \<and> 0 < paths \<and> 0 \<le> volatility"
  by (auto simp: validate_inputs_def validate_positive_def)

lemma walk_shape:
  "\<exists>ps. walk z drift diffusion n k price prices = (k + n, last (price # ps), prices @ ps)
        \<and> length ps = n"
proof (induction n arbitrary: k price prices)
  case 0
  then show ?case by simp
next
  case (Suc n)
  let ?p = "price * exp (drift + diffusion * z k)"
  from Suc [of "Suc k" ?p "prices @ [?p]"]
  obtain ps where ps: "walk z drift diffusion n (Suc k) ?p (prices @ [?p])
        = (Suc k + n, last (?p # ps), (prices @ [?p]) @ ps)" "length ps = n"
    by blast
  have "walk z drift diffusion (Suc n) k price prices
        = (k + Suc n, last (price # ?p # ps), prices @ ?p # ps) \<and> length (?p # ps) = Suc n"
    using ps by (simp add: Let_def)
  then show ?case by blast
qed

lemma walk_still:
  "walk z 0 0 n k price prices = (k + n, price, prices @ replicate n price)"
proof (induction n arbitrary: k prices)
  case 0
  then show ?case by simp
next
  case (Suc n)
  show ?case
    by (simp add: Suc replicate_app_Cons_same)
qed

lemma simulate_shape:
  assumes "simulate z spot drift diffusion steps payoff n k simulated_paths payoffs = Inr (sp, pf)"
  shows "length sp = length simulated_paths + n \<and> length pf = length payoffs + n
         \<and> (\<forall>path \<in> set sp. path \<in> set simulated_paths
                \<or> (length path = steps + 1 \<and> path ! 0 = spot))"
  using assms
proof (induction n arbitrary: k simulated_paths payoffs)
  case 0
  then show ?case by auto
next
  case (Suc n)
  obtain ps where w: "walk z drift diffusion steps k spot [spot]
        = (k + steps, last (spot # ps), [spot] @ ps)" "length ps = steps"
    using walk_shape [of z drift diffusion steps k spot "[spot]"] by blast
  let ?path = "[spot] @ ps"
  from Suc.prems obtain v where
    v: "payoff (last (spot # ps)) ?path = Inr v"
    and rec: "simulate z spot drift diffusion steps payoff n (k + steps)
               (simulated_paths @ [?path]) (payoffs @ [v]) = Inr (sp, pf)"
    unfolding simulate.simps w by (auto simp: and_then_eq_Inr)
  from Suc.IH [OF rec] w(2) show ?case
    by auto
qed

lemma simulate_payoffs:
  assumes "simulate z spot drift diffusion steps payoff n k simulated_paths payoffs = Inr (sp, pf)"
    and "length simulated_paths = length payoffs"
    and "\<forall>i < length simulated_paths.
           payoff (last (simulated_paths ! i)) (simulated_paths ! i) = Inr (payoffs ! i)"
  shows "length sp = length pf
         \<and> (\<forall>i < length sp. payoff (last (sp ! i)) (sp ! i) = Inr (pf ! i))"
  using assms
proof (induction n arbitrary: k simulated_paths payoffs)
  case 0
  then show ?case by auto
next
  case (Suc n)
  obtain ps where w: "walk z drift diffusion steps k spot [spot]
        = (k + steps, last (spot # ps), [spot] @ ps)" "length ps = steps"
    using walk_shape [of z drift diffusion steps k spot "[spot]"] by blast
  let ?path = "[spot] @ ps"
  from Suc.prems(1) obtain v where
    v: "payoff (last (spot # ps)) ?path = Inr v"
    and rec: "simulate z spot drift diffusion steps payoff n (k + steps)
               (simulated_paths @ [?path]) (payoffs @ [v]) = Inr (sp, pf)"
    unfolding simulate.simps w by (auto simp: and_then_eq_Inr)
  have len: "length (simulated_paths @ [?path]) = length (payoffs @ [v])"
    using Suc.prems(2) by simp
  have inv: "\<forall>i < length (simulated_paths @ [?path]).
           payoff (last ((simulated_paths @ [?path]) ! i)) ((simulated_paths @ [?path]) ! i)
             = Inr ((payoffs @ [v]) ! i)"
  proof (intro allI impI)
    fix i assume i: "i < length (simulated_paths @ [?path])"
    show "payoff (last ((simulated_paths @ [?path]) ! i)) ((simulated_paths @ [?path]) ! i)
             = Inr ((payoffs @ [v]) ! i)"
    proof (cases "i < length simulated_paths")
      case True
      then show ?thesis
        using Suc.prems(2,3) by (simp add: nth_append)
    next
      case False
      with i have "i = length simulated_paths" by simp
      then show ?thesis
        using v Suc.prems(2) by (simp add: nth_append)
    qed
  qed
  from Suc.IH [OF rec len inv] show ?case .
qed

lemma monte_carlo_Inr:
  assumes "monte_carlo_option_price z spot maturity rate volatility steps paths payoff = Inr r"
  shows "\<exists>drift diffusion.
           validate_inputs spot maturity rate volatility steps paths = Inr ()
         \<and> simulate z spot drift diffusion (nat steps) payoff (nat paths) 0 [] []
             = Inr (mc_paths r, mc_payoffs r)
         \<and> mc_payoffs r \<noteq> []
         \<and> mc_price r = exp (- rate * maturity) * sum_list (mc_payoffs r)
                          / real (length (mc_payoffs r))"
  using assms unfolding monte_carlo_option_price_def
  by (auto simp: and_then_eq_Inr Let_def truediv_def split: if_splits) blast

lemma monte_carlo_still:
  assumes "0 < spot" "0 < maturity" "payoff spot [spot, spot] = Inr v"
  shows "monte_carlo_option_price z spot maturity 0 0 1 1 payoff
         = Inr \<lparr>mc_price = v, mc_payoffs = [v], mc_paths = [[spot, spot]]\<rparr>"
proof -
  have v: "validate_inputs spot maturity 0 0 1 1 = Inr ()"
    using assms by (simp add: validate_inputs_Inr)
  have w: "walk z 0 0 (Suc 0) 0 spot [spot] = (Suc 0, spot, [spot, spot])"
    using walk_still [of z "Suc 0" 0 spot "[spot]"] by simp
  have s: "simulate z spot 0 0 (Suc 0) payoff (Suc 0) 0 [] [] = Inr ([[spot, spot]], [v])"
    using assms(3) by (simp add: w)
  show ?thesis
    unfolding monte_carlo_option_price_def
    using assms(2,3) by (simp add: v truediv_def math_sqrt_def w)
qed

subsection \<open>Claims about the lattice pricer\<close>

lemma crr_unit: "crr_dt 1 1 = 1" "crr_up v 1 1 = exp v" "crr_down v 1 1 = 1 / exp v"
  by (simp_all add: crr_dt_def crr_up_def crr_down_def)

lemma crr_probability_no_drift:
  assumes "0 < maturity" "0 < steps" "0 < volatility"
  shows "0 \<le> crr_probability r r volatility maturity steps"
    and "crr_probability r r volatility maturity steps \<le> 1"
proof -
  let ?u = "crr_up volatility maturity steps"
  have "0 < volatility * sqrt (crr_dt maturity steps)"
    using assms crr_dt_pos [of maturity steps] by simp
  then have u: "1 < ?u"
    by (simp add: crr_up_def)
  then have d: "1 / ?u < 1" by simp
  have p: "crr_probability r r volatility maturity steps = (1 - 1 / ?u) / (?u - 1 / ?u)"
    by (simp add: crr_probability_def crr_growth_def crr_down_def)
  have num: "0 \<le> 1 - 1 / ?u" using d by simp
  have den: "0 < ?u - 1 / ?u" using u d by linarith
  have le: "1 - 1 / ?u \<le> ?u - 1 / ?u" using u by linarith
  show "0 \<le> crr_probability r r volatility maturity steps"
    unfolding p using num den by (intro divide_nonneg_pos)
  show "crr_probability r r volatility maturity steps \<le> 1"
    unfolding p using le den by (simp only: divide_le_eq_1_pos)
qed

lemma crr_probability_above_one:
  assumes "0 < maturity" "0 < steps" "0 < volatility"
    and "volatility * sqrt (crr_dt maturity steps) < (rate - dividend) * crr_dt maturity steps"
  shows "1 < crr_probability rate dividend volatility maturity steps"
proof -
  let ?u = "crr_up volatility maturity steps"
  let ?g = "crr_growth rate dividend maturity steps"
  have "0 < volatility * sqrt (crr_dt maturity steps)"
    using assms crr_dt_pos [of maturity steps] by simp
  then have u: "1 < ?u"
    by (simp add: crr_up_def)
  then have d: "1 / ?u < 1" by simp
  have g: "?u < ?g"
    using assms(4) by (simp add: crr_up_def crr_growth_def)
  have "?u - 1 / ?u < ?g - 1 / ?u" using g by linarith
  moreover have "0 < ?u - 1 / ?u" using u d by linarith
  ultimately have "1 < (?g - 1 / ?u) / (?u - 1 / ?u)"
    by (simp only: less_divide_eq_1_pos)
  then show ?thesis
    by (simp add: crr_probability_def crr_down_def)
qed

lemma crr_probability_unit_no_drift:
  "crr_probability 0 0 1 1 1 = 1 / (exp 1 + 1)"
proof -
  let ?u = "exp (1::real)"
  have u: "1 < ?u" by simp
  have f: "?u - 1 / ?u = (1 - 1 / ?u) * (?u + 1)"
    by (simp add: field_simps)
  have nz: "1 - 1 / ?u \<noteq> 0" using u by simp
  have "(1 - 1 / ?u) / (?u - 1 / ?u) = 1 / (?u + 1)"
    unfolding f using nz by simp
  then show ?thesis
    by (simp add: crr_probability_def crr_growth_def crr_unit)
qed

text \<open>
  Claim C3. Whenever \<open>binomial_option_price\<close> returns, the option value lattice has
  \<open>steps + 1\<close> levels and level \<open>s\<close> has \<open>s + 1\<close> nodes. A terminal node is worth
  \<open>max (S - strike) 0\<close> for a call and \<open>max (strike - S) 0\<close> for a put, \<open>S\<close> being the
  asset price of the node. For every step \<open>s\<close> from \<open>steps - 1\<close> down to \<open>0\<close> and every
  node \<open>j\<close> in \<open>0..s\<close> the node value is the continuation value
  \<open>discount * (p * V[s+1][j+1] + (1 - p) * V[s+1][j])\<close>, or, for an American option, the
  maximum of that and the intrinsic value, \<open>max (S - strike) 0\<close> for a call and
  \<open>max (strike - S) 0\<close> for a put at \<open>S = asset_prices[s][j]\<close>. The returned price is
  \<open>option_values[0][0]\<close>.
\<close>

theorem backward_induction_recurrence:
  assumes "binomial_option_price spot strike maturity rate volatility steps option_type american
             dividend = Inr r"
  shows "length (bt_option_values r) = nat steps + 1
       \<and> (\<forall>s. s \<le> nat steps \<longrightarrow> length (bt_option_values r ! s) = s + 1)
       \<and> (\<forall>j. j \<le> nat steps \<longrightarrow>
            bt_option_values r ! nat steps ! j =
              (if option_type = ''call''
               then max (bt_asset_prices r ! nat steps ! j - strike) 0
               else max (strike - bt_asset_prices r ! nat steps ! j) 0))
       \<and> (\<forall>s j. s < nat steps \<and> j \<le> s \<longrightarrow>
            bt_option_values r ! s ! j =
              (let continuation =
                     crr_discount rate maturity steps
                     * (crr_probability rate dividend volatility maturity steps
                          * bt_option_values r ! (s + 1) ! (j + 1)
                        + (1 - crr_probability rate dividend volatility maturity steps)
                          * bt_option_values r ! (s + 1) ! j)
               in if american
                  then max continuation
                         (if option_type = ''call''
                          then max (bt_asset_prices r ! s ! j - strike) 0
                          else max (strike - bt_asset_prices r ! s ! j) 0)
                  else continuation))
       \<and> bt_price r = bt_option_values r ! 0 ! 0"
proof -
  note c = binomial_Inr_conditions [OF assms]
  have v: "0 < spot" "0 < strike" "0 < maturity" "0 < steps" "0 \<le> volatility"
    using c(1) by (simp_all add: validate_parameters_Inr)
  let ?up = "crr_up volatility maturity steps"
  let ?down = "crr_down volatility maturity steps"
  let ?A = "build_asset_prices spot ?up ?down steps"
  from binomial_returns [OF v c(2,3,4,5), of american] assms
  obtain V where V: "r = \<lparr>bt_price = V ! 0 ! 0, bt_asset_prices = ?A, bt_option_values = V\<rparr>"
      "length V = nat steps + 1"
      "\<forall>s. s \<le> nat steps \<longrightarrow> length (V ! s) = s + 1"
      "V ! nat steps = map (intrinsic option_type strike) (asset_level spot ?up ?down (nat steps))"
      "\<forall>s < nat steps. \<forall>j \<le> s. V ! s ! j =
                 node_formula (crr_discount rate maturity steps)
                   (crr_probability rate dividend volatility maturity steps)
                   strike option_type american ?A V s j"
    by auto
  note sh = build_asset_prices_shape [OF v(4), where spot = spot and up = ?up and down = ?down]
  have top: "?A ! nat steps = asset_level spot ?up ?down (nat steps)"
    using sh(2) [of "nat steps"] by simp
  have terminal: "\<forall>j. j \<le> nat steps \<longrightarrow>
            V ! nat steps ! j =
              (if option_type = ''call''
               then max (?A ! nat steps ! j - strike) 0
               else max (strike - ?A ! nat steps ! j) 0)"
  proof (intro allI impI)
    fix j assume "j \<le> nat steps"
    then have "j < length (asset_level spot ?up ?down (nat steps))"
      using sh(3) [of "nat steps"] by simp
    then show "V ! nat steps ! j =
              (if option_type = ''call''
               then max (?A ! nat steps ! j - strike) 0
               else max (strike - ?A ! nat steps ! j) 0)"
      unfolding V(4) top by (simp add: intrinsic_def)
  qed
  have inner: "\<forall>s j. s < nat steps \<and> j \<le> s \<longrightarrow>
            V ! s ! j =
              (let continuation =
                     crr_discount rate maturity steps
                     * (crr_probability rate dividend volatility maturity steps
                          * V ! (s + 1) ! (j + 1)
                        + (1 - crr_probability rate dividend volatility maturity steps)
                          * V ! (s + 1) ! j)
               in if american
                  then max continuation
                         (if option_type = ''call''
                          then max (?A ! s ! j - strike) 0
                          else max (strike - ?A ! s ! j) 0)
                  else continuation)"
    using V(5) by (simp add: node_formula_def intrinsic_def Let_def)
  show ?thesis
    unfolding V(1) BinomialTreeResult.select_convs
    using V(2,3) terminal inner by (intro conjI) (assumption | rule refl)+
qed

theorem backward_induction_recurrence_witness:
  "\<exists>r. binomial_option_price 100 100 1 0 1 1 ''call'' True 0 = Inr r
     \<and> bt_option_values r ! 1 ! 0 = 0
     \<and> bt_option_values r ! 1 ! 1 = 100 * exp 1 - 100
     \<and> bt_option_values r ! 0 ! 0 = 100 * (exp 1 - 1) / (exp 1 + 1)
     \<and> bt_price r = 100 * (exp 1 - 1) / (exp 1 + 1)"
proof -
  let ?u = "exp (1::real)"
  have u: "1 < ?u" by simp
  have "\<exists>V. binomial_option_price 100 100 1 0 1 1 ''call'' True 0
          = Inr \<lparr>bt_price = V ! 0 ! 0,
                 bt_asset_prices = build_asset_prices 100 (crr_up 1 1 1) (crr_down 1 1 1) 1,
                 bt_option_values = V\<rparr>"
    using binomial_returns [of 100 100 1 1 1 "''call''" 0 0 True]
      crr_probability_no_drift [of 1 1 1 0] by auto
  then obtain r where r: "binomial_option_price 100 100 1 0 1 1 ''call'' True 0 = Inr r"
    and A: "bt_asset_prices r = build_asset_prices 100 (crr_up 1 1 1) (crr_down 1 1 1) 1"
    by auto
  note sh = build_asset_prices_shape [of 1, where spot = 100 and up = "crr_up 1 1 1"
      and down = "crr_down 1 1 1"]
  have a00: "bt_asset_prices r ! 0 ! 0 = 100"
    unfolding A using sh(2) [of 0] sh(4) [of 0 0] by simp
  have a10: "bt_asset_prices r ! 1 ! 0 = 100 / ?u"
    unfolding A using sh(2) [of 1] sh(4) [of 0 1] by (simp add: crr_unit)
  have a11: "bt_asset_prices r ! 1 ! 1 = 100 * ?u"
    unfolding A using sh(2) [of 1] sh(4) [of 1 1] by (simp add: crr_unit)
  note t = backward_induction_recurrence [OF r]
  from t have "bt_option_values r ! 1 ! 0 = max (bt_asset_prices r ! 1 ! 0 - 100) 0"
    by simp
  then have v10: "bt_option_values r ! 1 ! 0 = 0"
    unfolding a10 using u by (simp add: max_def field_simps)
  from t have "bt_option_values r ! 1 ! 1 = max (bt_asset_prices r ! 1 ! 1 - 100) 0"
    by simp
  then have v11: "bt_option_values r ! 1 ! 1 = 100 * ?u - 100"
    unfolding a11 using u by (simp add: max_def)
  from t have "bt_option_values r ! 0 ! 0 =
      max (crr_discount 0 1 1
            * (crr_probability 0 0 1 1 1 * bt_option_values r ! 1 ! 1
               + (1 - crr_probability 0 0 1 1 1) * bt_option_values r ! 1 ! 0))
          (max (bt_asset_prices r ! 0 ! 0 - 100) 0)"
    by (simp add: Let_def)
  then have m: "bt_option_values r ! 0 ! 0 = max (1 / (?u + 1) * (100 * ?u - 100)) 0"
    unfolding v10 v11 a00 crr_probability_unit_no_drift
    by (simp add: crr_discount_def crr_unit)
  have pos: "0 \<le> 1 / (?u + 1) * (100 * ?u - 100)"
    using u by simp
  have "100 * ?u - 100 = 100 * (?u - 1)"
    by simp
  then have eq: "1 / (?u + 1) * (100 * ?u - 100) = 100 * (?u - 1) / (?u + 1)"
    by (simp only: times_divide_eq_left mult_1)
  have v00: "bt_option_values r ! 0 ! 0 = 100 * (?u - 1) / (?u + 1)"
    unfolding m max_absorb1 [OF pos] by (rule eq)
  from t have "bt_price r = bt_option_values r ! 0 ! 0" by simp
  with r v10 v11 v00 show ?thesis by auto
qed

text \<open>
  Claim C5. Whenever \<open>binomial_option_price\<close> returns, \<open>asset_prices\<close> has \<open>s + 1\<close>
  entries at every level \<open>s\<close> in \<open>0..steps\<close>, level \<open>0\<close> is the one-element list
  \<open>[spot]\<close>, and node \<open>j\<close> of level \<open>s\<close> is \<open>spot * up^j * down^(s - j)\<close>.
\<close>

theorem asset_prices_lattice:
  assumes "binomial_option_price spot strike maturity rate volatility steps option_type american
             dividend = Inr r"
  shows "length (bt_asset_prices r) = nat steps + 1
       \<and> (\<forall>s. s \<le> nat steps \<longrightarrow> length (bt_asset_prices r ! s) = s + 1)
       \<and> bt_asset_prices r ! 0 = [spot]
       \<and> (\<forall>s j. s \<le> nat steps \<and> j \<le> s \<longrightarrow>
            bt_asset_prices r ! s ! j =
              spot * crr_up volatility maturity steps ^ j
                   * crr_down volatility maturity steps ^ (s - j))"
proof -
  note c = binomial_Inr_conditions [OF assms]
  have v: "0 < spot" "0 < strike" "0 < maturity" "0 < steps" "0 \<le> volatility"
    using c(1) by (simp_all add: validate_parameters_Inr)
  let ?up = "crr_up volatility maturity steps"
  let ?down = "crr_down volatility maturity steps"
  from binomial_returns [OF v c(2,3,4,5), of american] assms
  have A: "bt_asset_prices r = build_asset_prices spot ?up ?down steps"
    by auto
  note sh = build_asset_prices_shape [OF v(4), where spot = spot and up = ?up and down = ?down]
  have zero: "bt_asset_prices r ! 0 = [spot]"
    unfolding A using sh(2) [of 0] by (simp add: asset_level_def)
  show ?thesis
    unfolding A using sh zero [unfolded A] by simp
qed

theorem asset_prices_lattice_witness:
  "\<exists>r. binomial_option_price 100 100 1 0 1 1 ''put'' False 0 = Inr r
     \<and> length (bt_asset_prices r) = 2
     \<and> length (bt_asset_prices r ! 0) = 1 \<and> length (bt_asset_prices r ! 1) = 2
     \<and> bt_asset_prices r ! 0 = [100]
     \<and> bt_asset_prices r ! 1 ! 0 = 100 * crr_down 1 1 1
     \<and> bt_asset_prices r ! 1 ! 1 = 100 * crr_up 1 1 1"
proof -
  have "\<exists>r. binomial_option_price 100 100 1 0 1 1 ''put'' False 0 = Inr r"
    using binomial_returns [of 100 100 1 1 1 "''put''" 0 0 False]
      crr_probability_no_drift [of 1 1 1 0] by auto
  then obtain r where r: "binomial_option_price 100 100 1 0 1 1 ''put'' False 0 = Inr r"
    by blast
  from asset_prices_lattice [OF r] show ?thesis
    using r by auto
qed

text \<open>
  Claim C4. For parameters that pass validation and a recognised option type, the pricer
  fails with the arbitrage error exactly when the quotient \<open>(growth - down) / (up - down)\<close>
  is defined (\<open>up \<noteq> down\<close>) and falls outside \<open>[0, 1]\<close>. The probability is not clamped:
  a result is returned only when the quotient itself lies in \<open>[0, 1]\<close>, and the failure is
  an \<open>Inl\<close> value, which carries no lattice.
\<close>

theorem arbitrage_error_iff:
  assumes "validate_parameters spot strike maturity rate volatility steps = Inr ()"
    and "option_type = ''call'' \<or> option_type = ''put''"
  shows "(binomial_option_price spot strike maturity rate volatility steps option_type american
            dividend
          = Inl (ValueError ''Arbitrage detected: adjust parameters (N, sigma, or rate).'')
          \<longleftrightarrow> crr_up volatility maturity steps \<noteq> crr_down volatility maturity steps
              \<and> \<not> (0 \<le> crr_probability rate dividend volatility maturity steps
                   \<and> crr_probability rate dividend volatility maturity steps \<le> 1))
       \<and> (\<forall>r. binomial_option_price spot strike maturity rate volatility steps option_type
                 american dividend = Inr r
              \<longrightarrow> 0 \<le> crr_probability rate dividend volatility maturity steps
                  \<and> crr_probability rate dividend volatility maturity steps \<le> 1)"
proof -
  let ?res = "binomial_option_price spot strike maturity rate volatility steps option_type american
            dividend"
  let ?p = "crr_probability rate dividend volatility maturity steps"
  have v: "0 < spot" "0 < strike" "0 < maturity" "0 < steps" "0 \<le> volatility"
    using assms(1) by (simp_all add: validate_parameters_Inr)
  have ne: "crr_up volatility maturity steps \<noteq> crr_down volatility maturity steps
            \<longleftrightarrow> volatility \<noteq> 0"
    using crr_up_eq_down [OF v(3,4), of volatility] by simp
  consider (zero) "volatility = 0" | (arb) "volatility \<noteq> 0" "\<not> (0 \<le> ?p \<and> ?p \<le> 1)"
    | (ok) "volatility \<noteq> 0" "0 \<le> ?p" "?p \<le> 1"
    by blast
  then have "?res = Inl (ValueError ''Arbitrage detected: adjust parameters (N, sigma, or rate).'')
          \<longleftrightarrow> volatility \<noteq> 0 \<and> \<not> (0 \<le> ?p \<and> ?p \<le> 1)"
  proof cases
    case zero
    then show ?thesis
      using binomial_zero_volatility [OF assms, of american dividend] by simp
  next
    case arb
    then show ?thesis
      using binomial_arbitrage [OF assms arb, of american] by simp
  next
    case ok
    then show ?thesis
      using binomial_returns [OF v assms(2) ok, of american] by auto
  qed
  moreover have "\<forall>r. ?res = Inr r \<longrightarrow> 0 \<le> ?p \<and> ?p \<le> 1"
    using binomial_Inr_conditions(4,5) by blast
  ultimately show ?thesis
    unfolding ne by blast
qed

theorem arbitrage_error_iff_witness:
  "validate_parameters 100 100 1 2 1 1 = Inr ()
   \<and> 1 < crr_probability 2 0 1 1 1
   \<and> binomial_option_price 100 100 1 2 1 1 ''call'' False 0
       = Inl (ValueError ''Arbitrage detected: adjust parameters (N, sigma, or rate).'')"
proof -
  have v: "validate_parameters 100 100 1 2 1 1 = Inr ()"
    by (simp add: validate_parameters_Inr)
  have p: "1 < crr_probability 2 0 1 1 1"
    using crr_probability_above_one [of 1 1 1 2 0] by (simp add: crr_unit)
  have ne: "crr_up 1 1 1 \<noteq> crr_down 1 1 1"
    using crr_up_eq_down [of 1 1 1] by simp
  show ?thesis
    using arbitrage_error_iff [OF v, where option_type = "''call''" and dividend = 0 and american = False] v p ne by simp
qed

text \<open>
  Claim C10. Zero volatility passes validation, and then \<open>up = down = 1\<close>: the division
  that computes the probability raises \<^verbatim>\<open>ZeroDivisionError\<close> before the arbitrage
  check is reached.
\<close>

theorem zero_volatility_division_error:
  assumes "validate_parameters spot strike maturity rate volatility steps = Inr ()"
    and "option_type = ''call'' \<or> option_type = ''put''"
    and "volatility = 0"
  shows "binomial_option_price spot strike maturity rate volatility steps option_type american
           dividend = Inl ZeroDivisionError"
  using assms by (rule binomial_zero_volatility)

theorem zero_volatility_division_error_witness:
  "validate_parameters 100 100 1 (5 / 100) 0 50 = Inr ()
   \<and> binomial_option_price 100 100 1 (5 / 100) 0 50 ''call'' False 0 = Inl ZeroDivisionError"
proof -
  have v: "validate_parameters 100 100 1 (5 / 100) 0 50 = Inr ()"
    by (simp add: validate_parameters_Inr)
  show ?thesis
    using zero_volatility_division_error [OF v, where option_type = "''call''" and dividend = 0 and american = False] v by simp
qed

subsection \<open>Claims about the Monte Carlo engine and the validators\<close>

lemma simulate_returns:
  assumes "\<forall>p path. \<exists>v. payoff p path = Inr v"
  shows "\<exists>sp pf. simulate z spot drift diffusion steps payoff n k simulated_paths payoffs
           = Inr (sp, pf)"
proof (induction n arbitrary: k simulated_paths payoffs)
  case 0
  then show ?case by simp
next
  case (Suc n)
  obtain k' p ps where w: "walk z drift diffusion steps k spot [spot] = (k', p, ps)"
    by (cases "walk z drift diffusion steps k spot [spot]") auto
  from assms obtain v where v: "payoff p ps = Inr v" by blast
  show ?case
    using Suc [of k' "simulated_paths @ [ps]" "payoffs @ [v]"] by (simp add: w v)
qed

lemma monte_carlo_returns:
  assumes "0 < spot" "0 < maturity" "0 < steps" "0 < paths" "0 \<le> volatility"
    and "\<forall>p path. \<exists>v. payoff p path = Inr v"
  shows "\<exists>r. monte_carlo_option_price z spot maturity rate volatility steps paths payoff = Inr r"
proof -
  let ?dt = "maturity / real_of_int steps"
  let ?drift = "(rate - 0.5 * volatility * volatility) * ?dt"
  let ?diffusion = "volatility * sqrt ?dt"
  have v: "validate_inputs spot maturity rate volatility steps paths = Inr ()"
    using assms by (simp add: validate_inputs_Inr)
  have dt: "truediv maturity (real_of_int steps) = Inr ?dt"
    using assms by (simp add: truediv_def)
  have "0 < ?dt" using assms by simp
  then have rt: "math_sqrt ?dt = Inr (sqrt ?dt)"
    by (simp only: math_sqrt_def not_less [symmetric] if_False) simp
  obtain sp pf where s: "simulate z spot ?drift ?diffusion (nat steps) payoff (nat paths) 0 [] []
       = Inr (sp, pf)"
    using simulate_returns [OF assms(6)] by blast
  have "length pf = nat paths"
    using simulate_shape [OF s] by simp
  then have ne: "real (length pf) \<noteq> 0"
    using assms(4) by simp
  have td: "truediv (exp (- rate * maturity) * sum_list pf) (real (length pf))
            = Inr (exp (- rate * maturity) * sum_list pf / real (length pf))"
    using ne by (simp add: truediv_def)
  show ?thesis
    unfolding monte_carlo_option_price_def
    by (simp only: v dt rt s td and_then_simps Let_def prod.case) blast
qed

text \<open>
  Claim C6. Whenever \<open>monte_carlo_option_price\<close> returns, its price is
  \<open>exp (- rate * maturity)\<close> times the arithmetic mean of the payoffs it returns: a plain
  average of a non-empty list that holds, for each simulated path, the payoff of that
  path and its terminal price, and nothing else.
\<close>

theorem monte_carlo_price_is_discounted_mean:
  assumes "monte_carlo_option_price z spot maturity rate volatility steps paths payoff = Inr r"
  shows "mc_payoffs r \<noteq> []
       \<and> mc_price r = exp (- rate * maturity) * mean (mc_payoffs r)
       \<and> length (mc_payoffs r) = length (mc_paths r)
       \<and> (\<forall>i < length (mc_paths r).
             payoff (last (mc_paths r ! i)) (mc_paths r ! i) = Inr (mc_payoffs r ! i))"
proof -
  from monte_carlo_Inr [OF assms] obtain drift diffusion where
    s: "simulate z spot drift diffusion (nat steps) payoff (nat paths) 0 [] []
             = Inr (mc_paths r, mc_payoffs r)"
    and ne: "mc_payoffs r \<noteq> []"
    and pr: "mc_price r = exp (- rate * maturity) * sum_list (mc_payoffs r)
                          / real (length (mc_payoffs r))"
    by blast
  from simulate_payoffs [OF s] have
    "length (mc_paths r) = length (mc_payoffs r)
     \<and> (\<forall>i < length (mc_paths r).
           payoff (last (mc_paths r ! i)) (mc_paths r ! i) = Inr (mc_payoffs r ! i))"
    by simp
  then show ?thesis
    using ne pr by (simp add: mean_def)
qed

theorem monte_carlo_price_is_discounted_mean_witness:
  "\<exists>r. monte_carlo_option_price (\<lambda>k. real k) 100 1 (5 / 100) (1 / 5) 3 2
          (\<lambda>p path. Inr (max (p - 100) 0)) = Inr r
     \<and> mc_payoffs r \<noteq> []
     \<and> mc_price r = exp (- (5 / 100) * 1) * mean (mc_payoffs r)
     \<and> length (mc_payoffs r) = length (mc_paths r)
     \<and> mc_payoffs r ! 0 = max (last (mc_paths r ! 0) - 100) 0"
proof -
  obtain r where r: "monte_carlo_option_price (\<lambda>k. real k) 100 1 (5 / 100) (1 / 5) 3 2
          (\<lambda>p path. Inr (max (p - 100) 0)) = Inr r"
    using monte_carlo_returns [of 100 1 3 2 "1 / 5" "\<lambda>p path. Inr (max (p - 100) 0)"
        "\<lambda>k. real k" "5 / 100"] by auto
  note m = monte_carlo_price_is_discounted_mean [OF r]
  from m have "0 < length (mc_paths r)" by auto
  with m have "Inr (max (last (mc_paths r ! 0) - 100) 0) = (Inr (mc_payoffs r ! 0) :: error + real)"
    by blast
  then have "mc_payoffs r ! 0 = max (last (mc_paths r ! 0) - 100) 0"
    by simp
  with m r show ?thesis by blast
qed

text \<open>
  Claim C7. With \<open>paths = 1\<close>, \<open>steps = 1\<close>, zero volatility and zero rate, the result has
  one payoff and the single path \<open>[spot, spot]\<close>, whatever the standard-normal source \<open>z\<close>
  produces (for a positive spot and maturity and a payoff that returns on that path).
\<close>

theorem zero_volatility_zero_rate_path:
  assumes "0 < spot" "0 < maturity" "payoff spot [spot, spot] = Inr v"
  shows "monte_carlo_option_price z spot maturity 0 0 1 1 payoff
         = Inr \<lparr>mc_price = v, mc_payoffs = [v], mc_paths = [[spot, spot]]\<rparr>"
  using assms by (rule monte_carlo_still)

theorem zero_volatility_zero_rate_path_witness:
  "monte_carlo_option_price (\<lambda>k. real k + 1) 100 1 0 0 1 1 (\<lambda>p path. Inr (max (p - 90) 0))
     = Inr \<lparr>mc_price = 10, mc_payoffs = [10], mc_paths = [[100, 100]]\<rparr>"
  using zero_volatility_zero_rate_path [of 100 1 "\<lambda>p path. Inr (max (p - 90) 0)" 10
      "\<lambda>k. real k + 1"] by simp

text \<open>
  Claim C8. Whenever \<open>monte_carlo_option_price\<close> returns, the numbers of paths and of
  payoffs both equal the requested path count, and every path has \<open>steps + 1\<close> points,
  the first of them \<open>spot\<close>.
\<close>

theorem monte_carlo_result_shape:
  assumes "monte_carlo_option_price z spot maturity rate volatility steps paths payoff = Inr r"
  shows "int (length (mc_paths r)) = paths \<and> int (length (mc_payoffs r)) = paths
       \<and> (\<forall>path \<in> set (mc_paths r). int (length path) = steps + 1 \<and> path ! 0 = spot)"
proof -
  from monte_carlo_Inr [OF assms] obtain drift diffusion where
    v: "validate_inputs spot maturity rate volatility steps paths = Inr ()"
    and s: "simulate z spot drift diffusion (nat steps) payoff (nat paths) 0 [] []
             = Inr (mc_paths r, mc_payoffs r)"
    by blast
  have pos: "0 < steps" "0 < paths"
    using v by (simp_all add: validate_inputs_Inr)
  from simulate_shape [OF s] pos show ?thesis
    by auto
qed

theorem monte_carlo_result_shape_witness:
  "\<exists>r. monte_carlo_option_price (\<lambda>k. real k) 100 1 (5 / 100) (1 / 5) 3 2
          (\<lambda>p path. Inr (max (p - 100) 0)) = Inr r
     \<and> length (mc_paths r) = 2 \<and> length (mc_payoffs r) = 2
     \<and> length (mc_paths r ! 0) = 4 \<and> mc_paths r ! 0 ! 0 = 100
     \<and> length (mc_paths r ! 1) = 4 \<and> mc_paths r ! 1 ! 0 = 100"
proof -
  obtain r where r: "monte_carlo_option_price (\<lambda>k. real k) 100 1 (5 / 100) (1 / 5) 3 2
          (\<lambda>p path. Inr (max (p - 100) 0)) = Inr r"
    using monte_carlo_returns [of 100 1 3 2 "1 / 5" "\<lambda>p path. Inr (max (p - 100) 0)"
        "\<lambda>k. real k" "5 / 100"] by auto
  from monte_carlo_result_shape [OF r]
  have len: "length (mc_paths r) = 2" "length (mc_payoffs r) = 2"
    and each: "\<forall>path \<in> set (mc_paths r). int (length path) = 4 \<and> path ! 0 = 100"
    by auto
  have "mc_paths r ! 0 \<in> set (mc_paths r)" "mc_paths r ! 1 \<in> set (mc_paths r)"
    using len by simp_all
  with each have "int (length (mc_paths r ! 0)) = 4 \<and> mc_paths r ! 0 ! 0 = 100"
    "int (length (mc_paths r ! 1)) = 4 \<and> mc_paths r ! 1 ! 0 = 100"
    by blast+
  then show ?thesis
    using r len by auto
qed

text \<open>
  Claim C9, as amended. Neither validator constrains \<open>rate\<close>: \<open>_validate_parameters\<close>
  accepts exactly a positive spot, strike, maturity and step count with a non-negative
  volatility, and \<open>_validate_inputs\<close> exactly a positive spot, maturity, step count and
  path count with a non-negative volatility, for every rate.
\<close>

theorem validation_ignores_rate:
  "(validate_parameters spot strike maturity rate volatility steps = Inr ()
      \<longleftrightarrow> 0 < spot \<and> 0 < strike \<and> 0 < maturity \<and> 0 < steps \<and> 0 \<le> volatility)
   \<and> (validate_inputs spot maturity rate volatility steps paths = Inr ()
      \<longleftrightarrow> 0 < spot \<and> 0 < maturity \<and> 0 < steps \<and> 0 < paths \<and> 0 \<le> volatility)"
  by (simp add: validate_parameters_Inr validate_inputs_Inr)

text \<open>
  Claim C9 as stated fails: with \<open>rate = 0\<close> the Monte Carlo engine validates and returns
  a result, and with \<open>rate = - 1\<close> the lattice validator accepts (the pricer then fails
  on the zero volatility of this input, not on the rate).
\<close>

theorem nonpositive_rate_accepted:
  "validate_inputs 100 1 0 0 1 1 = Inr ()
   \<and> monte_carlo_option_price (\<lambda>k. 0) 100 1 0 0 1 1 (\<lambda>p path. Inr p)
       = Inr \<lparr>mc_price = 100, mc_payoffs = [100], mc_paths = [[100, 100]]\<rparr>
   \<and> validate_parameters 100 100 1 (- 1) 0 1 = Inr ()
   \<and> binomial_option_price 100 100 1 (- 1) 0 1 ''call'' False 0 = Inl ZeroDivisionError"
  using monte_carlo_still [of 100 1 "\<lambda>p path. Inr p" 100 "\<lambda>k. 0"]
    binomial_zero_volatility [of 100 100 1 "- 1" 0 1 "''call''" False 0]
  by (simp add: validate_parameters_Inr validate_inputs_Inr)

subsection \<open>The expression validator and the evaluator\<close>

lemma then_eval_simps [simp]:
  "then_eval None f = None"
  "then_eval (Some (Inl e)) f = Some (Inl e)"
  "then_eval (Some (Inr x)) f = f x"
  by (simp_all add: then_eval_def)

lemma dunder_not_allowed:
  "startswith name ''__'' \<Longrightarrow> name \<notin> set (allowed_functions dir_math)"
  by (auto simp: allowed_functions_def helper_functions_def startswith_def)

lemma helpers_allowed:
  "''max'' \<in> set (allowed_functions dir_math)" "''min'' \<in> set (allowed_functions dir_math)"
  by (simp_all add: allowed_functions_def helper_functions_def)















lemma payoff_call_payoff:
  "compiled_payoff dm (Call (Name ''max'' Load)
          [BinOp (Name ''price'' Load) Sub (Constant (ConstInt 100)), Constant (ConstInt 0)] [])
     p path = Some (Inr (max (p - 100) 0))"
  by (simp add: compiled_payoff_def lookup_name_def helper_functions_def binop_def call_def
      of_option_def max_def)



subsection \<open>Claims about the payoff expression sandbox\<close>

text \<open>
  Claim C1, on the code. A syntax error of the parser (the outcome of \<^verbatim>\<open>import os\<close>) and
  the call \<^verbatim>\<open>__import__('os')\<close> are rejected with a \<^verbatim>\<open>ValueError\<close>, for every content
  of \<^verbatim>\<open>dir(math)\<close>, and \<^verbatim>\<open>max(price - 100, 0)\<close> is accepted and evaluates to
  \<open>max (p - 100) 0\<close> for every terminal price \<open>p\<close> and every path. The expression
  \<^verbatim>\<open>price.__class__\<close> is accepted too: the validator visits an attribute node
  generically, whatever its receiver, so the claim's rejection at compile time does not
  happen.
\<close>

theorem payoff_from_expression_examples:
  "payoff_from_expression dir_math (Inl msg)
     = Inl (ValueError (''Invalid payoff expression: '' @ msg))
   \<and> payoff_from_expression dir_math (Inr tree_dunder_import)
     = Inl (ValueError ''Function __import__ is not allowed.'')
   \<and> payoff_from_expression dir_math (Inr tree_price_class)
     = Inr (compiled_payoff dir_math (Attribute (Name ''price'' Load) ''__class__'' Load))
   \<and> (\<exists>f. payoff_from_expression dir_math (Inr tree_call_payoff) = Inr f
          \<and> (\<forall>p path. f p path = Some (Inr (max (p - 100) 0))))"
proof -
  have a: "payoff_from_expression dir_math (Inl msg)
     = Inl (ValueError (''Invalid payoff expression: '' @ msg))"
    by (simp add: payoff_from_expression_def)
  have "''__import__'' \<notin> set (allowed_functions dir_math)"
    by (rule dunder_not_allowed) (simp add: startswith_def)
  then have b: "payoff_from_expression dir_math (Inr tree_dunder_import)
     = Inl (ValueError ''Function __import__ is not allowed.'')"
    by (simp add: payoff_from_expression_def tree_dunder_import_def visit_Call_check_def)
  have c: "payoff_from_expression dir_math (Inr tree_price_class)
     = Inr (compiled_payoff dir_math (Attribute (Name ''price'' Load) ''__class__'' Load))"
    by (simp add: payoff_from_expression_def tree_price_class_def allowed_names_def
        visit_context_def)
  have d: "payoff_from_expression dir_math (Inr tree_call_payoff)
     = Inr (compiled_payoff dir_math (Call (Name ''max'' Load)
          [BinOp (Name ''price'' Load) Sub (Constant (ConstInt 100)), Constant (ConstInt 0)] []))"
    by (simp add: payoff_from_expression_def tree_call_payoff_def allowed_names_def
        visit_Call_check_def helpers_allowed visit_operator_def visit_keywords_def)
  show ?thesis
    using a b c d payoff_call_payoff by simp
qed




end
